theory Spec2Isabelle
  imports Complex_Main
begin

section \<open>Numbers\<close>

text \<open>
  The notebook computes with binary64 floating-point numbers (Python floats, numpy
  float64). A finite double is a real number, and the model computes with reals, in two
  ways. Where the code only hands numbers on (the fit configuration, the calls of the
  plots), and where a definition stands for the formula of the source as such, the
  arithmetic is exact: \<open>np_div\<close>, \<open>np_sqrt\<close>, \<open>bkg\<close>, \<open>gaussian\<close>, \<open>maxwell\<close>. Where a claim
  is about the values the code computes, every operation rounds its exact result to
  binary64: \<open>bkg_fp\<close>, \<open>gaussian_fp\<close>, \<open>maxwell_fp\<close> and the signal models built from them.
  In both, an operation without a finite result (a division by zero, the square root of a
  negative number, an overflow) gives \<open>None\<close>: on Python floats it raises
  ZeroDivisionError or OverflowError, on numpy arrays it yields inf or nan. Nothing is
  said about what is computed from such a value afterwards.
\<close>

definition np_div :: "real \<Rightarrow> real \<Rightarrow> real option" where
  "np_div p q = (if q = 0 then None else Some (p / q))"

definition np_sqrt :: "real \<Rightarrow> real option" where
  "np_sqrt r = (if r < 0 then None else Some (sqrt r))"

section \<open>Binary64 arithmetic\<close>

text \<open>Rounding to the nearest integer, a tie going to the even neighbour.\<close>

definition np_rint :: "real \<Rightarrow> int" where
  "np_rint v =
     (if frac v < 1 / 2 then \<lfloor>v\<rfloor>
      else if 1 / 2 < frac v then \<lfloor>v\<rfloor> + 1
      else if even \<lfloor>v\<rfloor> then \<lfloor>v\<rfloor> else \<lfloor>v\<rfloor> + 1)"

text \<open>
  The binary exponent of a number in the range of binary64: the largest \<open>e\<close> between
  \<open>-1022\<close> and 1023 with \<open>2\<^sup>e \<le> \<bar>z\<bar>\<close>, and \<open>-1022\<close> for the subnormal numbers below.
\<close>

definition f64_exponent :: "real \<Rightarrow> int" where
  "f64_exponent z =
     (if \<bar>z\<bar> < 2 powi (- 1022) then - 1022
      else Max {e \<in> {- 1022..1023}. 2 powi e \<le> \<bar>z\<bar>})"

text \<open>
  IEEE 754 rounding of a real number to binary64, to nearest, ties to even: a multiple of
  the unit in the last place \<open>2\<^sup>e\<^sup>-\<^sup>5\<^sup>2\<close>. A number of magnitude \<open>2\<^sup>1\<^sup>0\<^sup>2\<^sup>4 - 2\<^sup>9\<^sup>7\<^sup>0\<close> or more rounds
  to infinity: no finite result. The two zeros of binary64 are one number here.
\<close>

definition f64_round :: "real \<Rightarrow> real option" where
  "f64_round z =
     (if z = 0 then Some 0
      else if 2 ^ 1024 - 2 ^ 970 \<le> \<bar>z\<bar> then None
      else let ulp = 2 powi (f64_exponent z - 52)
           in Some (real_of_int (np_rint (z / ulp)) * ulp))"

text \<open>
  The unit roundoff \<open>2\<^sup>-\<^sup>5\<^sup>3\<close>, and the relative error of \<open>k\<close> roundings in a row: \<open>r\<close> is
  \<open>z\<close> times a factor between \<open>(1 - 2\<^sup>-\<^sup>5\<^sup>3)\<^sup>k\<close> and its inverse. One unit in the last place
  is a relative error of at most \<open>2\<^sup>-\<^sup>5\<^sup>2\<close>, which \<open>rel_err 3\<close> covers.
\<close>

definition f64_unit :: real where
  "f64_unit = 1 / 2 ^ 53"

definition rel_err :: "nat \<Rightarrow> real \<Rightarrow> real \<Rightarrow> bool" where
  "rel_err k r z \<longleftrightarrow>
     (if z = 0 then r = 0
      else (1 - f64_unit) ^ k \<le> r / z \<and> r / z * (1 - f64_unit) ^ k \<le> 1)"

text \<open>A result that does not underflow: zero, or of magnitude \<open>2\<^sup>-\<^sup>1\<^sup>0\<^sup>2\<^sup>2\<close> at least.\<close>

definition f64_normal :: "real \<Rightarrow> bool" where
  "f64_normal z \<longleftrightarrow> z = 0 \<or> 2 powi (- 1022) \<le> \<bar>z\<bar>"

text \<open>
  Three operations of the source are not IEEE operations but functions of the C library
  or of numpy: \<open>abs\<close> of a complex number (\<open>hypot\<close> of its two parts), \<open>**\<close> with an
  integer exponent (\<open>pow\<close> on Python floats, a product on numpy arrays) and \<open>np.exp\<close>.
  They are not part of the notebook and are a parameter of the model; what is known of
  them, an error of at most one unit in the last place, is a hypothesis of the theorems
  that need it.
\<close>

record libm =
  lm_hypot :: "real \<Rightarrow> real \<Rightarrow> real option"
  lm_pow :: "real \<Rightarrow> nat \<Rightarrow> real option"
  lm_exp :: "real \<Rightarrow> real option"

text \<open>
  The operations as the model functions use them. With \<open>guard = False\<close> they are the
  operations of the code. With \<open>guard = True\<close> an operation whose exact result underflows
  fails as well; an evaluation that succeeds under the guard is an evaluation of the code
  in which nothing overflowed, underflowed or was divided by zero.
\<close>

definition fp_round :: "bool \<Rightarrow> real \<Rightarrow> real option" where
  "fp_round guard z = (if guard \<and> \<not> f64_normal z then None else f64_round z)"

definition fp_div :: "bool \<Rightarrow> real \<Rightarrow> real \<Rightarrow> real option" where
  "fp_div guard p q = (if q = 0 then None else fp_round guard (p / q))"

definition fp_hypot :: "bool \<Rightarrow> libm \<Rightarrow> real \<Rightarrow> real \<Rightarrow> real option" where
  "fp_hypot guard lib p q =
     (if guard \<and> \<not> f64_normal (sqrt (p\<^sup>2 + q\<^sup>2)) then None else lm_hypot lib p q)"

definition fp_pow :: "bool \<Rightarrow> libm \<Rightarrow> real \<Rightarrow> nat \<Rightarrow> real option" where
  "fp_pow guard lib z k = (if guard \<and> \<not> f64_normal (z ^ k) then None else lm_pow lib z k)"

text \<open>
  A library whose results are correctly rounded, for the concrete evaluations below. The
  C library returns the same values at the arguments used there (for instance
  \<open>hypot(1, 1) = 1.4142135623730951\<close>, whose square is \<open>2.0000000000000004\<close>); it does not
  round correctly at every argument.
\<close>

definition libm_cr :: libm where
  "libm_cr = \<lparr>lm_hypot = (\<lambda>p q. f64_round (sqrt (p\<^sup>2 + q\<^sup>2))),
              lm_pow = (\<lambda>z k. f64_round (z ^ k)),
              lm_exp = (\<lambda>v. f64_round (exp v))\<rparr>"

section \<open>Model functions\<close>

text \<open>
  First the model functions in exact arithmetic, the formulas of the source as they
  stand; their evaluation in binary64 follows.
\<close>

text \<open>
  \<^verbatim>\<open>def bkg(x, a, b, c, d, e, f):
      return e**2*abs(x-a+1j*b)**2/abs(x-c+1j*d)**2+f*(x-c)\<close>
  Python reads the expression as \<open>((e**2 * abs(..)**2) / abs(..)**2) + f*(x-c)\<close>;
  \<open>abs\<close> of a complex number is its modulus.
\<close>

definition bkg :: "real \<Rightarrow> real \<Rightarrow> real \<Rightarrow> real \<Rightarrow> real \<Rightarrow> real \<Rightarrow> real \<Rightarrow> real option" where
  "bkg x a b c d e f =
     map_option (\<lambda>q. q + f * (x - c))
       (np_div (e\<^sup>2 * (cmod (of_real (x - a) + \<i> * of_real b))\<^sup>2)
               ((cmod (of_real (x - c) + \<i> * of_real d))\<^sup>2))"

text \<open>
  \<^verbatim>\<open>def gaussian(x, x0, s, mu):
      return mu * np.exp(-.5*((x-x0)/s)**2)\<close>
\<close>

definition gaussian :: "real \<Rightarrow> real \<Rightarrow> real \<Rightarrow> real \<Rightarrow> real option" where
  "gaussian x x0 s mu =
     map_option (\<lambda>q. mu * exp (- (1 / 2) * q\<^sup>2)) (np_div (x - x0) s)"

text \<open>
  \<^verbatim>\<open>def maxwell(x, x0, s, mu):
      return mu * x**2/s**3 * np.exp(-.5*((x-x0)/s)**2)\<close>
  that is \<open>((mu * x**2) / s**3) * np.exp(..)\<close>.
\<close>

definition maxwell :: "real \<Rightarrow> real \<Rightarrow> real \<Rightarrow> real \<Rightarrow> real option" where
  "maxwell x x0 s mu =
     (case np_div (mu * x\<^sup>2) (s ^ 3) of
        None \<Rightarrow> None
      | Some p \<Rightarrow> map_option (\<lambda>q. p * exp (- (1 / 2) * q\<^sup>2)) (np_div (x - x0) s))"

text \<open>The sum of two numpy values is a real when both are.\<close>

definition np_add :: "real option \<Rightarrow> real option \<Rightarrow> real option" where
  "np_add u v = (case u of None \<Rightarrow> None | Some p \<Rightarrow> map_option (\<lambda>q. p + q) v)"

text \<open>
  \<^verbatim>\<open>def signal_gauss(x, a, b, c, d, e, f, x0, s, mu):
      return bkg(x,a,b,c,d,e,f) + gaussian(x,x0,s,mu)
  def signal_maxwell(x, a, b, c, d, e, f, x0, s, mu):
      return bkg(x,a,b,c,d,e,f) + maxwell(x,x0,s,mu)\<close>
\<close>

definition signal_gauss ::
  "real \<Rightarrow> real \<Rightarrow> real \<Rightarrow> real \<Rightarrow> real \<Rightarrow> real \<Rightarrow> real \<Rightarrow> real \<Rightarrow> real \<Rightarrow> real \<Rightarrow> real option" where
  "signal_gauss x a b c d e f x0 s mu = np_add (bkg x a b c d e f) (gaussian x x0 s mu)"

definition signal_maxwell ::
  "real \<Rightarrow> real \<Rightarrow> real \<Rightarrow> real \<Rightarrow> real \<Rightarrow> real \<Rightarrow> real \<Rightarrow> real \<Rightarrow> real \<Rightarrow> real \<Rightarrow> real option" where
  "signal_maxwell x a b c d e f x0 s mu = np_add (bkg x a b c d e f) (maxwell x x0 s mu)"

text \<open>
  The closed form of the background in real arithmetic, as the specification writes it:
  \<open>e\<^sup>2 \<cdot> ((x - a)\<^sup>2 + b\<^sup>2) / ((x - c)\<^sup>2 + d\<^sup>2) + f \<cdot> (x - c)\<close>.
\<close>

definition bkg_closed :: "real \<Rightarrow> real \<Rightarrow> real \<Rightarrow> real \<Rightarrow> real \<Rightarrow> real \<Rightarrow> real \<Rightarrow> real" where
  "bkg_closed x a b c d e f = e\<^sup>2 * ((x - a)\<^sup>2 + b\<^sup>2) / ((x - c)\<^sup>2 + d\<^sup>2) + f * (x - c)"

text \<open>
  The model functions as the code evaluates them, one rounding for each operation, in
  the order in which Python evaluates the expression. In \<open>bkg\<close>, \<open>x-a+1j*b\<close> is the complex
  number with real part the rounded \<open>x - a\<close> and imaginary part \<open>b\<close> (the product \<open>1j*b\<close>
  and the sum are exact), \<open>abs\<close> is \<open>hypot\<close> of the two, and \<open>x - c\<close> is computed twice.
\<close>

definition bkg_fp ::
  "bool \<Rightarrow> libm \<Rightarrow> real \<Rightarrow> real \<Rightarrow> real \<Rightarrow> real \<Rightarrow> real \<Rightarrow> real \<Rightarrow> real \<Rightarrow> real option" where
  "bkg_fp guard lib x a b c d e f =
     Option.bind (fp_pow guard lib e 2) (\<lambda>e2.
     Option.bind (fp_round guard (x - a)) (\<lambda>t1.
     Option.bind (fp_hypot guard lib t1 b) (\<lambda>h1.
     Option.bind (fp_pow guard lib h1 2) (\<lambda>n.
     Option.bind (fp_round guard (e2 * n)) (\<lambda>p.
     Option.bind (fp_round guard (x - c)) (\<lambda>t2.
     Option.bind (fp_hypot guard lib t2 d) (\<lambda>h2.
     Option.bind (fp_pow guard lib h2 2) (\<lambda>dn.
     Option.bind (fp_div guard p dn) (\<lambda>q.
     Option.bind (fp_round guard (x - c)) (\<lambda>t3.
     Option.bind (fp_round guard (f * t3)) (\<lambda>r.
     fp_round guard (q + r))))))))))))"

text \<open>The factor \<open>np.exp(-.5*((x-x0)/s)**2)\<close> of both signal shapes.\<close>

definition gauss_exp_fp :: "bool \<Rightarrow> libm \<Rightarrow> real \<Rightarrow> real \<Rightarrow> real \<Rightarrow> real option" where
  "gauss_exp_fp guard lib x x0 s =
     Option.bind (fp_round guard (x - x0)) (\<lambda>t.
     Option.bind (fp_div guard t s) (\<lambda>q.
     Option.bind (fp_pow guard lib q 2) (\<lambda>q2.
     Option.bind (fp_round guard (- (1 / 2) * q2)) (\<lambda>arg.
     lm_exp lib arg))))"

definition gaussian_fp :: "bool \<Rightarrow> libm \<Rightarrow> real \<Rightarrow> real \<Rightarrow> real \<Rightarrow> real \<Rightarrow> real option" where
  "gaussian_fp guard lib x x0 s mu =
     Option.bind (gauss_exp_fp guard lib x x0 s) (\<lambda>ex. fp_round guard (mu * ex))"

definition maxwell_fp :: "bool \<Rightarrow> libm \<Rightarrow> real \<Rightarrow> real \<Rightarrow> real \<Rightarrow> real \<Rightarrow> real option" where
  "maxwell_fp guard lib x x0 s mu =
     Option.bind (fp_pow guard lib x 2) (\<lambda>x2.
     Option.bind (fp_round guard (mu * x2)) (\<lambda>p1.
     Option.bind (fp_pow guard lib s 3) (\<lambda>s3.
     Option.bind (fp_div guard p1 s3) (\<lambda>p2.
     Option.bind (gauss_exp_fp guard lib x x0 s) (\<lambda>ex.
     fp_round guard (p2 * ex))))))"

definition signal_gauss_fp ::
  "bool \<Rightarrow> libm \<Rightarrow> real \<Rightarrow> real \<Rightarrow> real \<Rightarrow> real \<Rightarrow> real \<Rightarrow> real \<Rightarrow> real \<Rightarrow> real \<Rightarrow> real \<Rightarrow> real \<Rightarrow> real option" where
  "signal_gauss_fp guard lib x a b c d e f x0 s mu =
     Option.bind (bkg_fp guard lib x a b c d e f) (\<lambda>bk.
     Option.bind (gaussian_fp guard lib x x0 s mu) (\<lambda>gs. fp_round guard (bk + gs)))"

definition signal_maxwell_fp ::
  "bool \<Rightarrow> libm \<Rightarrow> real \<Rightarrow> real \<Rightarrow> real \<Rightarrow> real \<Rightarrow> real \<Rightarrow> real \<Rightarrow> real \<Rightarrow> real \<Rightarrow> real \<Rightarrow> real \<Rightarrow> real option" where
  "signal_maxwell_fp guard lib x a b c d e f x0 s mu =
     Option.bind (bkg_fp guard lib x a b c d e f) (\<lambda>bk.
     Option.bind (maxwell_fp guard lib x x0 s mu) (\<lambda>mx. fp_round guard (bk + mx)))"

text \<open>
  The other side of the relation between the two signal shapes, as the specification
  writes it, \<open>(x\<^sup>2 / s\<^sup>3) \<cdot> gaussian(x, x0, s, mu)\<close>, evaluated in binary64.
\<close>

definition scaled_gaussian_fp :: "bool \<Rightarrow> libm \<Rightarrow> real \<Rightarrow> real \<Rightarrow> real \<Rightarrow> real \<Rightarrow> real option" where
  "scaled_gaussian_fp guard lib x x0 s mu =
     Option.bind (fp_pow guard lib x 2) (\<lambda>x2.
     Option.bind (fp_pow guard lib s 3) (\<lambda>s3.
     Option.bind (fp_div guard x2 s3) (\<lambda>k.
     Option.bind (gaussian_fp guard lib x x0 s mu) (\<lambda>gs.
     fp_round guard (k * gs)))))"

section \<open>Fitting\<close>

text \<open>
  What can go wrong in the notebook's own code: a missing key of \<open>init_params\<close>
  (KeyError), an empty sequence handed to \<open>min\<close>, \<open>max\<close> or \<open>np.max\<close>, or a
  histogram range that numpy rejects (ValueError when it is inverted, TypeError when an
  end does not fit a 64-bit integer), and a numpy value that is not a real
  (\<open>NonFinite\<close>: the real-valued model stops there).
\<close>

datatype error = KeyError | ValueError | TypeError | NonFinite

text \<open>
  The settings the notebook hands to \<open>make_params\<close> for one parameter: a start value,
  whether the fit may vary it, and the bounds (\<open>None\<close>: no bound, the library's default).
\<close>

record parameter =
  p_value :: real
  p_vary :: bool
  p_min :: "real option"
  p_max :: "real option"

text \<open>A parameter given as a plain number, as in \<open>b=2e4\<close>: free and unbounded.\<close>

definition number_param :: "real \<Rightarrow> parameter" where
  "number_param v = \<lparr>p_value = v, p_vary = True, p_min = None, p_max = None\<rparr>"

text \<open>
  \<open>Model(func)\<close>: the fitting library calls the model function with the independent
  variable \<open>x\<close> and with its other arguments looked up by name among the parameters.
\<close>

type_synonym model_func = "real \<Rightarrow> (string \<Rightarrow> real) \<Rightarrow> real option"

definition Model6 ::
  "(real \<Rightarrow> real \<Rightarrow> real \<Rightarrow> real \<Rightarrow> real \<Rightarrow> real \<Rightarrow> real \<Rightarrow> real option) \<Rightarrow> model_func" where
  "Model6 func x p = func x (p ''a'') (p ''b'') (p ''c'') (p ''d'') (p ''e'') (p ''f'')"

definition Model9 ::
  "(real \<Rightarrow> real \<Rightarrow> real \<Rightarrow> real \<Rightarrow> real \<Rightarrow> real \<Rightarrow> real \<Rightarrow> real \<Rightarrow> real \<Rightarrow> real \<Rightarrow> real option) \<Rightarrow> model_func" where
  "Model9 func x p =
     func x (p ''a'') (p ''b'') (p ''c'') (p ''d'') (p ''e'') (p ''f'') (p ''x0'') (p ''s'') (p ''mu'')"

text \<open>The arguments of one call \<open>model.fit(data, x=x, params=ps, weights=weights)\<close>.\<close>

record fit_call =
  fc_model :: model_func
  fc_data :: "real list"
  fc_x :: "real list"
  fc_params :: "(string \<times> parameter) list"
  fc_weights :: "real list"

text \<open>
  The fit result, as far as the notebook reads it: the best-fit value of each parameter,
  the best-fit curve over \<open>x\<close> and the array of normalized residuals.
\<close>

record fit_result =
  best_values :: "string \<rightharpoonup> real"
  best_fit :: "real list"
  residual :: "real list"

text \<open>
  The least-squares fit itself belongs to the fitting library, not to the notebook. It is
  a parameter of the model: a function from the arguments of the call to a fit result, or
  to an error when the library raises.
\<close>

type_synonym fitter = "fit_call \<Rightarrow> error + fit_result"

text \<open>\<open>1/w\<close> on a numpy array, elementwise; a zero in \<open>w\<close> gives inf.\<close>

definition np_reciprocal :: "real list \<Rightarrow> real list option" where
  "np_reciprocal w = (if 0 \<in> set w then None else Some (map (\<lambda>wi. 1 / wi) w))"

text \<open>
  \<^verbatim>\<open>def fit_bkg(x, y, w, center, ref):
      bkg_model = Model(bkg)
      ps = bkg_model.make_params(a={'value':center, 'min':center*0.999, 'max':center*1.01},
                                 b=2e4,
                                 c={'value':center, 'min':center*0.999, 'max':center*1.01},
                                 d=2.2e4,
                                 e=1e-2*np.sqrt(ref),
                                 f=1e-12*ref)
      result = bkg_model.fit(y, x=x, params=ps, weights=1/w)
      return result\<close>
\<close>

definition fit_bkg ::
  "fitter \<Rightarrow> real list \<Rightarrow> real list \<Rightarrow> real list \<Rightarrow> real \<Rightarrow> real \<Rightarrow> error + fit_result" where
  "fit_bkg lmfit x y w center ref =
     (case np_sqrt ref of
        None \<Rightarrow> Inl NonFinite
      | Some sqrt_ref \<Rightarrow>
          let ps =
            [(''a'', \<lparr>p_value = center, p_vary = True,
                      p_min = Some (center * 0.999), p_max = Some (center * 1.01)\<rparr>),
             (''b'', number_param 20000),
             (''c'', \<lparr>p_value = center, p_vary = True,
                      p_min = Some (center * 0.999), p_max = Some (center * 1.01)\<rparr>),
             (''d'', number_param 22000),
             (''e'', number_param (1 / 10 ^ 2 * sqrt_ref)),
             (''f'', number_param (1 / 10 ^ 12 * ref))]
          in (case np_reciprocal w of
                None \<Rightarrow> Inl NonFinite
              | Some weights \<Rightarrow>
                  lmfit \<lparr>fc_model = Model6 bkg, fc_data = y, fc_x = x,
                         fc_params = ps, fc_weights = weights\<rparr>))"

text \<open>\<open>init_params['a']\<close>: a missing key raises KeyError.\<close>

definition getitem :: "(string \<rightharpoonup> real) \<Rightarrow> string \<Rightarrow> error + real" where
  "getitem m k = (case m k of None \<Rightarrow> Inl KeyError | Some v \<Rightarrow> Inr v)"

text \<open>A parameter given as \<open>{'value': v, 'vary': vary}\<close>.\<close>

definition value_vary_param :: "real \<Rightarrow> bool \<Rightarrow> parameter" where
  "value_vary_param v vary = \<lparr>p_value = v, p_vary = vary, p_min = None, p_max = None\<rparr>"

text \<open>
  \<^verbatim>\<open>def fit_sig(x, y, w, x_0, init_params, signal, mu_init=1, mu_vary=True, par_vary=False):
      sig_model = Model(signal)
      ps = sig_model.make_params(a ={'value':init_params['a'], 'vary':par_vary},
                                 b ={'value':init_params['b'], 'vary':par_vary},
                                 c ={'value':init_params['c'], 'vary':par_vary},
                                 d ={'value':init_params['d'], 'vary':par_vary},
                                 e ={'value':init_params['e'], 'vary':par_vary},
                                 f ={'value':init_params['f'], 'vary':par_vary},
                                 mu={'value':mu_init, 'min':0, 'vary':mu_vary},
                                 x0={'value':x_0, 'vary':False},
                                 s ={'value':16*651, 'vary':False})
      result = sig_model.fit(y, x=x, params=ps, weights=1/w)
      return result\<close>
  The defaults of \<open>mu_init\<close>, \<open>mu_vary\<close> and \<open>par_vary\<close> are 1, True and False; the
  model takes the three arguments explicitly.
\<close>

definition bind_err :: "error + 'a \<Rightarrow> ('a \<Rightarrow> error + 'b) \<Rightarrow> error + 'b" where
  "bind_err r k = (case r of Inl err \<Rightarrow> Inl err | Inr v \<Rightarrow> k v)"

definition fit_sig ::
  "fitter \<Rightarrow> real list \<Rightarrow> real list \<Rightarrow> real list \<Rightarrow> real \<Rightarrow> (string \<rightharpoonup> real) \<Rightarrow>
   (real \<Rightarrow> real \<Rightarrow> real \<Rightarrow> real \<Rightarrow> real \<Rightarrow> real \<Rightarrow> real \<Rightarrow> real \<Rightarrow> real \<Rightarrow> real \<Rightarrow> real option) \<Rightarrow>
   real \<Rightarrow> bool \<Rightarrow> bool \<Rightarrow> error + fit_result" where
  "fit_sig lmfit x y w x_0 init_params signal mu_init mu_vary par_vary =
     bind_err (getitem init_params ''a'') (\<lambda>va.
     bind_err (getitem init_params ''b'') (\<lambda>vb.
     bind_err (getitem init_params ''c'') (\<lambda>vc.
     bind_err (getitem init_params ''d'') (\<lambda>vd.
     bind_err (getitem init_params ''e'') (\<lambda>ve.
     bind_err (getitem init_params ''f'') (\<lambda>vf.
       let ps =
         [(''a'', value_vary_param va par_vary),
          (''b'', value_vary_param vb par_vary),
          (''c'', value_vary_param vc par_vary),
          (''d'', value_vary_param vd par_vary),
          (''e'', value_vary_param ve par_vary),
          (''f'', value_vary_param vf par_vary),
          (''mu'', \<lparr>p_value = mu_init, p_vary = mu_vary, p_min = Some 0, p_max = None\<rparr>),
          (''x0'', value_vary_param x_0 False),
          (''s'', value_vary_param (16 * 651) False)]
       in (case np_reciprocal w of
             None \<Rightarrow> Inl NonFinite
           | Some weights \<Rightarrow>
               lmfit \<lparr>fc_model = Model9 signal, fc_data = y, fc_x = x,
                      fc_params = ps, fc_weights = weights\<rparr>)))))))"

section \<open>Plotting\<close>

text \<open>
  \<open>plot_fit\<close> draws through the plotting library. The model records the calls that carry
  data, in the order of the source, each with the axes it draws on and its arguments.
  Calls that only set labels, legends and titles take no data and are left out. The
  sequences \<open>x\<close>, \<open>y\<close>, \<open>w\<close>, \<open>best_fit\<close> and \<open>residual\<close> are numpy arrays of one common
  length; what the plotting library does with arrays of different lengths is not modelled.
\<close>

datatype axes = Ax | Ax1 | Ax2 | Ax3

datatype call =
    Plot axes "real list" "real list"
  | Set_xlim axes real real
  | Plot_residuals axes
  | Hist axes "real list" nat bool int int
  | Plot_norm_pdf axes "real list" real real
  | Axvline axes real
  | Text axes real real real real
  | Scatter axes "real list" "real list"
  | Show

text \<open>Python's \<open>min\<close> and \<open>max\<close>, and \<open>np.max\<close>: an empty sequence raises ValueError.\<close>

definition py_min :: "real list \<Rightarrow> error + real" where
  "py_min xs = (if xs = [] then Inl ValueError else Inr (Min (set xs)))"

definition py_max :: "real list \<Rightarrow> error + real" where
  "py_max xs = (if xs = [] then Inl ValueError else Inr (Max (set xs)))"

definition np_max :: "real list \<Rightarrow> error + real" where
  "np_max xs = (if xs = [] then Inl ValueError else Inr (Max (set xs)))"

text \<open>\<open>int(v)\<close> on a float truncates toward zero.\<close>

definition py_int :: "real \<Rightarrow> int" where
  "py_int v = (if 0 \<le> v then \<lfloor>v\<rfloor> else \<lceil>v\<rceil>)"

text \<open>
  \<open>norm.fit(data, loc=0, scale=1)\<close>: the maximum-likelihood normal distribution, that is
  the mean of the data and the square root of the mean squared deviation from it.
\<close>

definition norm_fit :: "real list \<Rightarrow> real \<times> real" where
  "norm_fit data =
     (let n = real (length data);
          loc = sum_list data / n
      in (loc, sqrt (sum_list (map (\<lambda>v. (v - loc)\<^sup>2) data) / n)))"

text \<open>\<open>np.linspace(lo, hi, num)\<close> for \<open>num\<close> at least 2: evenly spaced, both ends included.\<close>

definition np_linspace :: "real \<Rightarrow> real \<Rightarrow> nat \<Rightarrow> real list" where
  "np_linspace lo hi num = map (\<lambda>i. lo + real i * ((hi - lo) / real (num - 1))) [0..<num]"

text \<open>\<open>np.round(v, 3)\<close>: to three decimals, a tie going to the even neighbour.\<close>

definition np_round3 :: "real \<Rightarrow> real" where
  "np_round3 v = of_int (np_rint (v * 1000)) / 1000"

text \<open>
  \<^verbatim>\<open>def plot_fit(x, y, w, fit_result):
      ...
      ax.plot(x, y, 'o', label='data')
      ax.plot(x, fit_result.best_fit, color='red', label='fit')
      fmin, fmax = min(x), max(x)
      ax.set_xlim([fmin,fmax])
      ...
      fit_result.plot_residuals(ax=ax1)
      rangeMax = int(np.max(fit_result.residual))+1
      ax2.hist(fit_result.residual, bins=15, density=True, range=(-rangeMax,rangeMax))
      fit_res = norm.fit(fit_result.residual, loc=0, scale=1)
      ax2.plot(np.linspace(-rangeMax, rangeMax, 100),
               norm.pdf(np.linspace(-rangeMax, rangeMax, 100), fit_res[0], fit_res[1]), color="red")
      ax2.axvline(fit_res[0], color='black', linestyle='dashed', linewidth=1)
      summary_text = "mean: {} std: {}".format(np.round(fit_res[0],3), np.round(fit_res[1], 3))
      ax2.text(0.9, 0.9, summary_text, transform=fig.gca().transAxes, ha='right', va='top')
      ...
      ax3.scatter(x, fit_result.residual*w, label="residuals")
      ax3.plot(x,  w, ...)
      ax3.plot(x, -w, ...)
      ax3.set_xlim([fmin,fmax])
      ...
      plt.show()
      return fit_result\<close>
  The histogram is computed by \<open>numpy.histogram\<close>, which raises ValueError ("max must be
  larger than min in range parameter") when the lower edge of \<open>range\<close> exceeds the upper
  one, here when \<open>-rangeMax > rangeMax\<close>, and TypeError when an end of the range, a
  Python integer, does not fit a 64-bit integer, here when \<open>rangeMax\<close> is \<open>2\<^sup>6\<^sup>3\<close> or more
  (a residual that is a double never gives \<open>rangeMax = 2\<^sup>6\<^sup>3\<close> itself: the doubles from
  \<open>2\<^sup>6\<^sup>2\<close> on are multiples of 1024, so \<open>rangeMax\<close> is below \<open>2\<^sup>6\<^sup>3\<close> or above it, and then
  \<open>-rangeMax\<close> is below \<open>-2\<^sup>6\<^sup>3\<close>).
  The function returns the figure's calls together with the fit result as it stands at
  the end: no statement of the source assigns to it or to one of its arrays.
\<close>

definition plot_fit ::
  "real list \<Rightarrow> real list \<Rightarrow> real list \<Rightarrow> fit_result \<Rightarrow> error + (call list \<times> fit_result)" where
  "plot_fit x y w fit_result =
     bind_err (py_min x) (\<lambda>fmin.
     bind_err (py_max x) (\<lambda>fmax.
     bind_err (np_max (residual fit_result)) (\<lambda>top.
       let rangeMax = py_int top + 1 in
       if rangeMax < - rangeMax then Inl ValueError
       else if 2 ^ 63 \<le> rangeMax then Inl TypeError
       else
         let fit_res = norm_fit (residual fit_result);
             grid = np_linspace (- real_of_int rangeMax) (real_of_int rangeMax) 100
         in Inr ([Plot Ax x y,
                  Plot Ax x (best_fit fit_result),
                  Set_xlim Ax fmin fmax,
                  Plot_residuals Ax1,
                  Hist Ax2 (residual fit_result) 15 True (- rangeMax) rangeMax,
                  Plot_norm_pdf Ax2 grid (fst fit_res) (snd fit_res),
                  Axvline Ax2 (fst fit_res),
                  Text Ax2 (9 / 10) (9 / 10) (np_round3 (fst fit_res)) (np_round3 (snd fit_res)),
                  Scatter Ax3 x (map2 (*) (residual fit_result) w),
                  Plot Ax3 x w,
                  Plot Ax3 x (map uminus w),
                  Set_xlim Ax3 fmin fmax,
                  Show],
                 fit_result))))"

text \<open>
  The invariant of the data model for the arguments of \<open>plot_fit\<close>: sequences of one
  common length, not empty, with strictly positive uncertainties.
\<close>

definition well_formed :: "real list \<Rightarrow> real list \<Rightarrow> real list \<Rightarrow> fit_result \<Rightarrow> bool" where
  "well_formed x y w fr \<longleftrightarrow>
     x \<noteq> [] \<and> length y = length x \<and> length w = length x \<and> list_all (\<lambda>wi. 0 < wi) w
     \<and> length (best_fit fr) = length x \<and> length (residual fr) = length x"

text \<open>The calls of a run of \<open>plot_fit\<close> (none when it raises), and the histogram among them.\<close>

definition calls_of :: "error + (call list \<times> fit_result) \<Rightarrow> call list" where
  "calls_of r = (case r of Inl err \<Rightarrow> [] | Inr (cs, fr) \<Rightarrow> cs)"

fun is_hist :: "call \<Rightarrow> bool" where
  "is_hist (Hist ax data bins density lo hi) = True"
| "is_hist other = False"

text \<open>
  A sample fitter for concrete runs: it sets every parameter that may vary to 7, keeps the
  others, and returns the data as the best-fit curve, with residuals 0.
\<close>

definition sample_fitter :: fitter where
  "sample_fitter fc =
     Inr \<lparr>best_values =
            map_of (map (\<lambda>(n, p). (n, if p_vary p then 7 else p_value p)) (fc_params fc)),
          best_fit = fc_data fc,
          residual = map (\<lambda>v. 0) (fc_data fc)\<rparr>"

section \<open>Properties of binary64 rounding\<close>

lemma np_rint_error: "\<bar>real_of_int (np_rint v) - v\<bar> \<le> 1 / 2"
proof -
  have "v = real_of_int \<lfloor>v\<rfloor> + frac v" by (simp add: frac_def)
  moreover have "0 \<le> frac v" "frac v < 1" by (simp_all add: frac_lt_1)
  ultimately show ?thesis
    unfolding np_rint_def by (cases "frac v < 1 / 2"; cases "1 / 2 < frac v"; simp; linarith)
qed

lemma np_rint_unique:
  assumes "\<bar>v - real_of_int m\<bar> < 1 / 2"
  shows "np_rint v = m"
proof -
  have fl: "v = real_of_int \<lfloor>v\<rfloor> + frac v" by (simp add: frac_def)
  have fr: "0 \<le> frac v" "frac v < 1" by (simp_all add: frac_lt_1)
  have "\<bar>real_of_int (np_rint v) - v\<bar> \<le> 1 / 2" by (rule np_rint_error)
  with assms have "\<bar>real_of_int (np_rint v) - real_of_int m\<bar> < 1" by linarith
  then have "\<bar>real_of_int (np_rint v - m)\<bar> < 1" by simp
  then have "\<bar>np_rint v - m\<bar> < 1" by linarith
  then show ?thesis by simp
qed

lemma powi2_less_cancel: "(2::real) powi a < 2 powi b \<Longrightarrow> a < b"
proof (rule ccontr)
  assume lt: "(2::real) powi a < 2 powi b" and "\<not> a < b"
  then have "b \<le> a" by simp
  then have "(2::real) powi b \<le> 2 powi a" by (intro power_int_increasing) simp_all
  with lt show False by linarith
qed


lemma f64_exponent_unique:
  assumes "- 1022 \<le> e" and "e \<le> 1023" and "2 powi e \<le> \<bar>z\<bar>" and "\<bar>z\<bar> < 2 powi (e + 1)"
  shows "f64_exponent z = e"
proof -
  have big: "\<not> \<bar>z\<bar> < 2 powi (- 1022)"
  proof -
    have "(2::real) powi (- 1022) \<le> 2 powi e"
      using assms(1) by (intro power_int_increasing) simp_all
    with assms(3) show ?thesis by linarith
  qed
  have "Max {e' \<in> {- 1022..1023}. 2 powi e' \<le> \<bar>z\<bar>} = e"
  proof (rule Max_eqI)
    show "finite {e' \<in> {- 1022..1023}. (2::real) powi e' \<le> \<bar>z\<bar>}"
      by (rule finite_subset [of _ "{- 1022..1023}"]) auto
    show "e \<in> {e' \<in> {- 1022..1023}. 2 powi e' \<le> \<bar>z\<bar>}" using assms by simp
    fix e' assume "e' \<in> {e' \<in> {- 1022..1023}. 2 powi e' \<le> \<bar>z\<bar>}"
    then have "(2::real) powi e' < 2 powi (e + 1)" using assms(4) by simp
    then have "e' < e + 1" by (rule powi2_less_cancel)
    then show "e' \<le> e" by simp
  qed
  with big show ?thesis by (simp add: f64_exponent_def del: power_int_numeral_neg_numeral)
qed

lemma f64_exponent_bounds:
  assumes "2 powi (- 1022) \<le> \<bar>z\<bar>" and "\<bar>z\<bar> < 2 ^ 1024"
  shows "- 1022 \<le> f64_exponent z \<and> f64_exponent z \<le> 1023
       \<and> 2 powi (f64_exponent z) \<le> \<bar>z\<bar> \<and> \<bar>z\<bar> < 2 powi (f64_exponent z + 1)"
proof -
  let ?S = "{e \<in> {- 1022..1023}. (2::real) powi e \<le> \<bar>z\<bar>}"
  have fin: "finite ?S" by (rule finite_subset [of _ "{- 1022..1023}"]) auto
  have "(- 1022::int) \<in> ?S" using assms(1) by (simp del: power_int_numeral_neg_numeral)
  then have ne: "?S \<noteq> {}" by blast
  have ex: "f64_exponent z = Max ?S"
    using assms(1) by (simp add: f64_exponent_def del: power_int_numeral_neg_numeral)
  have mem: "Max ?S \<in> ?S" by (rule Max_in [OF fin ne])
  have up: "\<bar>z\<bar> < 2 powi (Max ?S + 1)"
  proof (cases "Max ?S = 1023")
    case True
    with assms(2) show ?thesis by simp
  next
    case False
    with mem have lt: "Max ?S + 1 \<le> 1023" "- 1022 \<le> Max ?S + 1" by auto
    show ?thesis
    proof (rule ccontr)
      assume "\<not> \<bar>z\<bar> < 2 powi (Max ?S + 1)"
      then have "Max ?S + 1 \<in> ?S" using lt by simp
      then have "Max ?S + 1 \<le> Max ?S" by (rule Max_ge [OF fin])
      then show False by simp
    qed
  qed
  from mem up ex show ?thesis by simp
qed

lemma f64_round_SomeD:
  assumes "f64_round z = Some r"
  shows "\<bar>z\<bar> < 2 ^ 1024 - 2 ^ 970"
    and "z \<noteq> 0 \<Longrightarrow> r = real_of_int (np_rint (z / 2 powi (f64_exponent z - 52))) * 2 powi (f64_exponent z - 52)"
    and "z = 0 \<Longrightarrow> r = 0"
  using assms by (auto simp: f64_round_def Let_def split: if_splits)

lemma f64_round_error_ulp:
  assumes "f64_round z = Some r"
  shows "\<bar>r - z\<bar> \<le> 2 powi (f64_exponent z - 52) / 2"
proof (cases "z = 0")
  case True
  with assms show ?thesis by (simp add: f64_round_def)
next
  case False
  define ulp :: real where "ulp = 2 powi (f64_exponent z - 52)"
  have pos: "0 < ulp" by (simp add: ulp_def)
  have r: "r = real_of_int (np_rint (z / ulp)) * ulp"
    using f64_round_SomeD(2) [OF assms False] by (simp add: ulp_def)
  have "r - z = (real_of_int (np_rint (z / ulp)) - z / ulp) * ulp"
    using pos by (simp add: r algebra_simps)
  then have "\<bar>r - z\<bar> = \<bar>real_of_int (np_rint (z / ulp)) - z / ulp\<bar> * ulp"
    using pos by (simp add: abs_mult)
  also have "\<dots> \<le> 1 / 2 * ulp"
    using np_rint_error [of "z / ulp"] pos by (intro mult_right_mono) simp_all
  finally show ?thesis by (simp add: ulp_def)
qed

lemma f64_round_error_normal:
  assumes "f64_round z = Some r" and "2 powi (- 1022) \<le> \<bar>z\<bar>"
  shows "\<bar>r - z\<bar> \<le> \<bar>z\<bar> / 2 ^ 53"
proof -
  have "(0::real) \<le> 2 ^ 970" by simp
  then have "\<bar>z\<bar> < 2 ^ 1024" using f64_round_SomeD(1) [OF assms(1)] by linarith
  from f64_exponent_bounds [OF assms(2) this]
  have low: "2 powi (f64_exponent z) \<le> \<bar>z\<bar>" by simp
  have "(2::real) powi (f64_exponent z - 52) / 2 = 2 powi (f64_exponent z) / 2 ^ 53"
    by (simp add: power_int_diff)
  with f64_round_error_ulp [OF assms(1)] have "\<bar>r - z\<bar> \<le> 2 powi (f64_exponent z) / 2 ^ 53"
    by simp
  also have "\<dots> \<le> \<bar>z\<bar> / 2 ^ 53" using low by (simp add: divide_right_mono)
  finally show ?thesis .
qed


lemma unit_bounds: "0 < 1 - f64_unit" "1 - f64_unit \<le> 1" "0 \<le> f64_unit"
  by (simp_all add: f64_unit_def)

lemma wpow_bounds: "0 < (1 - f64_unit) ^ k" "(1 - f64_unit) ^ k \<le> 1"
  using unit_bounds by (simp_all add: power_le_one)

lemma rel_err_iff:
  "rel_err k r z \<longleftrightarrow> (\<exists>t. r = z * t \<and> (1 - f64_unit) ^ k \<le> t \<and> t * (1 - f64_unit) ^ k \<le> 1)"
proof (cases "z = 0")
  case True
  show ?thesis
  proof
    assume "rel_err k r z"
    with True have "r = z * 1" by (simp add: rel_err_def)
    moreover have "(1 - f64_unit) ^ k \<le> 1" by (rule wpow_bounds)
    ultimately show "\<exists>t. r = z * t \<and> (1 - f64_unit) ^ k \<le> t \<and> t * (1 - f64_unit) ^ k \<le> 1"
      by (intro exI [of _ 1]) simp
  next
    assume "\<exists>t. r = z * t \<and> (1 - f64_unit) ^ k \<le> t \<and> t * (1 - f64_unit) ^ k \<le> 1"
    with True show "rel_err k r z" by (auto simp: rel_err_def)
  qed
next
  case False
  show ?thesis
  proof
    assume "rel_err k r z"
    with False have "r = z * (r / z)" "(1 - f64_unit) ^ k \<le> r / z" "r / z * (1 - f64_unit) ^ k \<le> 1"
      by (simp_all add: rel_err_def)
    then show "\<exists>t. r = z * t \<and> (1 - f64_unit) ^ k \<le> t \<and> t * (1 - f64_unit) ^ k \<le> 1"
      by blast
  next
    assume "\<exists>t. r = z * t \<and> (1 - f64_unit) ^ k \<le> t \<and> t * (1 - f64_unit) ^ k \<le> 1"
    then obtain t where "r = z * t" "(1 - f64_unit) ^ k \<le> t" "t * (1 - f64_unit) ^ k \<le> 1"
      by blast
    with False show "rel_err k r z" by (simp add: rel_err_def)
  qed
qed

lemma rel_errI:
  "r = z * t \<Longrightarrow> (1 - f64_unit) ^ k \<le> t \<Longrightarrow> t * (1 - f64_unit) ^ k \<le> 1 \<Longrightarrow> rel_err k r z"
  unfolding rel_err_iff by blast

lemma rel_err_refl: "rel_err 0 z z"
  by (rule rel_errI [of _ _ 1]) simp_all

lemma rel_err_mult:
  assumes "rel_err j a a'" and "rel_err k b b'"
  shows "rel_err (j + k) (a * b) (a' * b')"
proof -
  from assms(1) obtain s where s: "a = a' * s" "(1 - f64_unit) ^ j \<le> s" "s * (1 - f64_unit) ^ j \<le> 1"
    unfolding rel_err_iff by blast
  from assms(2) obtain t where t: "b = b' * t" "(1 - f64_unit) ^ k \<le> t" "t * (1 - f64_unit) ^ k \<le> 1"
    unfolding rel_err_iff by blast
  have spos: "0 < s" using s(2) wpow_bounds(1) [of j] by linarith
  have tpos: "0 < t" using t(2) wpow_bounds(1) [of k] by linarith
  show ?thesis
  proof (rule rel_errI [of _ _ "s * t"])
    show "a * b = a' * b' * (s * t)" by (simp add: s(1) t(1))
    have "(1 - f64_unit) ^ j * (1 - f64_unit) ^ k \<le> s * t"
      using s(2) t(2) wpow_bounds(1) [of j] wpow_bounds(1) [of k] spos
      by (intro mult_mono) simp_all
    then show "(1 - f64_unit) ^ (j + k) \<le> s * t" by (simp add: power_add)
    have "(s * (1 - f64_unit) ^ j) * (t * (1 - f64_unit) ^ k) \<le> 1 * 1"
      using s(3) t(3) spos tpos wpow_bounds(1) [of j] wpow_bounds(1) [of k]
      by (intro mult_mono) simp_all
    then show "s * t * (1 - f64_unit) ^ (j + k) \<le> 1" by (simp add: power_add mult_ac)
  qed
qed

lemma rel_err_inverse:
  assumes "rel_err k b b'"
  shows "rel_err k (inverse b) (inverse b')"
proof (cases "b' = 0")
  case True
  with assms show ?thesis by (simp add: rel_err_def)
next
  case False
  from assms obtain t where t: "b = b' * t" "(1 - f64_unit) ^ k \<le> t" "t * (1 - f64_unit) ^ k \<le> 1"
    unfolding rel_err_iff by blast
  have tpos: "0 < t" using t(2) wpow_bounds(1) [of k] by linarith
  show ?thesis
  proof (rule rel_errI [of _ _ "inverse t"])
    show "inverse b = inverse b' * inverse t" by (simp add: t(1))
    have "(1 - f64_unit) ^ k * t \<le> 1" using t(3) by (simp add: mult.commute)
    then show "(1 - f64_unit) ^ k \<le> inverse t"
      using tpos by (simp add: field_simps)
    show "inverse t * (1 - f64_unit) ^ k \<le> 1"
      using tpos t(2) by (simp add: field_simps)
  qed
qed

lemma rel_err_divide:
  assumes "rel_err j a a'" and "rel_err k b b'"
  shows "rel_err (j + k) (a / b) (a' / b')"
  using rel_err_mult [OF assms(1) rel_err_inverse [OF assms(2)]]
  by (simp add: divide_inverse)

lemma rel_err_trans:
  assumes "rel_err j r s" and "rel_err k s t"
  shows "rel_err (j + k) r t"
proof -
  from assms(1) obtain p where p: "r = s * p" "(1 - f64_unit) ^ j \<le> p" "p * (1 - f64_unit) ^ j \<le> 1"
    unfolding rel_err_iff by blast
  have "rel_err j p 1" using p(2,3) by (intro rel_errI [of _ _ p]) simp_all
  from rel_err_mult [OF assms(2) this] show ?thesis by (simp add: p(1) add.commute)
qed

lemma rel_err_mono:
  assumes "rel_err j r z" and "j \<le> k"
  shows "rel_err k r z"
proof -
  have "rel_err (k - j) 1 (1::real)"
    using wpow_bounds [of "k - j"] by (intro rel_errI [of _ _ 1]) simp_all
  from rel_err_mult [OF assms(1) this] assms(2) show ?thesis by simp
qed

lemma rel_err_add_nonneg:
  assumes "rel_err k a a'" and "rel_err k b b'" and "0 \<le> a'" and "0 \<le> b'"
  shows "rel_err k (a + b) (a' + b')"
proof -
  from assms(1) obtain s where s: "a = a' * s" "(1 - f64_unit) ^ k \<le> s" "s * (1 - f64_unit) ^ k \<le> 1"
    unfolding rel_err_iff by blast
  from assms(2) obtain t where t: "b = b' * t" "(1 - f64_unit) ^ k \<le> t" "t * (1 - f64_unit) ^ k \<le> 1"
    unfolding rel_err_iff by blast
  define w where "w = (1 - f64_unit) ^ k"
  have wpos: "0 < w" by (simp add: w_def wpow_bounds)
  have lo: "w * a' \<le> a" "w * b' \<le> b"
    using s(2) t(2) assms(3,4) by (simp_all add: s(1) t(1) w_def mult.commute mult_left_mono)
  have "a' * (s * w) \<le> a' * 1" "b' * (t * w) \<le> b' * 1"
    using s(3) t(3) assms(3,4) by (simp_all only: w_def mult_left_mono)
  then have hi: "a * w \<le> a'" "b * w \<le> b'" by (simp_all add: s(1) t(1) mult_ac)
  show ?thesis
  proof (cases "a' + b' = 0")
    case True
    with assms(3,4) have "a' = 0" "b' = 0" by linarith+
    then show ?thesis by (simp add: rel_err_def s(1) t(1))
  next
    case False
    with assms(3,4) have pos: "0 < a' + b'" by linarith
    have "w * (a' + b') \<le> a + b" using lo by (simp add: algebra_simps)
    then have 1: "w \<le> (a + b) / (a' + b')" using pos by (simp add: field_simps)
    have "(a + b) * w \<le> a' + b'" using hi by (simp add: algebra_simps)
    then have 2: "(a + b) / (a' + b') * w \<le> 1" using pos by (simp add: field_simps)
    from 1 2 False show ?thesis by (simp add: rel_err_def w_def)
  qed
qed

lemma rel_err_sqrt:
  assumes "rel_err (2 * k) a a'"
  shows "rel_err k (sqrt a) (sqrt a')"
proof -
  from assms obtain t where
    t: "a = a' * t" "(1 - f64_unit) ^ (2 * k) \<le> t" "t * (1 - f64_unit) ^ (2 * k) \<le> 1"
    unfolding rel_err_iff by blast
  define w where "w = (1 - f64_unit) ^ k"
  have wpos: "0 < w" by (simp add: w_def wpow_bounds)
  have w2: "(1 - f64_unit) ^ (2 * k) = w * w"
    by (simp add: w_def power_add [symmetric] mult_2)
  have "sqrt (w * w) \<le> sqrt t" using t(2) by (simp only: w2 real_sqrt_le_iff)
  then have lo: "w \<le> sqrt t" using wpos by simp
  have "sqrt (t * (w * w)) \<le> sqrt 1" using t(3) by (simp only: w2 real_sqrt_le_iff)
  then have hi: "sqrt t * w \<le> 1" using wpos by (simp add: real_sqrt_mult)
  show ?thesis
  proof (rule rel_errI [of _ _ "sqrt t"])
    show "sqrt a = sqrt a' * sqrt t" by (simp add: t(1) real_sqrt_mult)
    show "(1 - f64_unit) ^ k \<le> sqrt t" using lo by (simp add: w_def)
    show "sqrt t * (1 - f64_unit) ^ k \<le> 1" using hi by (simp add: w_def)
  qed
qed

lemma rel_err_round:
  assumes "f64_round z = Some r" and "f64_normal z"
  shows "rel_err 1 r z"
proof (cases "z = 0")
  case True
  with assms(1) show ?thesis by (simp add: f64_round_def rel_err_def)
next
  case False
  with assms(2) have "2 powi (- 1022) \<le> \<bar>z\<bar>"
    by (simp add: f64_normal_def del: power_int_numeral_neg_numeral)
  from f64_round_error_normal [OF assms(1) this] have err: "\<bar>r - z\<bar> \<le> \<bar>z\<bar> * f64_unit"
    by (simp add: f64_unit_def)
  define t where "t = r / z"
  have r: "r = z * t" using False by (simp add: t_def)
  have zpos: "0 < \<bar>z\<bar>" using False by simp
  have "r - z = z * (t - 1)" by (simp add: r algebra_simps)
  then have "\<bar>r - z\<bar> = \<bar>z\<bar> * \<bar>t - 1\<bar>" by (simp only: abs_mult)
  with err have "\<bar>z\<bar> * \<bar>t - 1\<bar> \<le> \<bar>z\<bar> * f64_unit" by simp
  then have b: "\<bar>t - 1\<bar> \<le> f64_unit" using zpos by (simp only: mult_le_cancel_left_pos)
  have "t * (1 - f64_unit) \<le> (1 + f64_unit) * (1 - f64_unit)"
    using b unit_bounds by (intro mult_right_mono) linarith+
  also have "\<dots> = 1 - f64_unit * f64_unit" by (simp add: algebra_simps)
  also have "\<dots> \<le> 1" by simp
  finally have hi: "t * (1 - f64_unit) \<le> 1" .
  have lo: "1 - f64_unit \<le> t" using b by linarith
  show ?thesis
    by (rule rel_errI [of _ _ t]) (use r lo hi in simp_all)
qed

lemma rel_err_bound:
  assumes "rel_err k r z" and "1 \<le> (1 - f64_unit) ^ k * (1 + eps)" and "0 \<le> eps"
  shows "\<bar>r - z\<bar> \<le> eps * \<bar>z\<bar>"
proof -
  from assms(1) obtain t where t: "r = z * t" "(1 - f64_unit) ^ k \<le> t" "t * (1 - f64_unit) ^ k \<le> 1"
    unfolding rel_err_iff by blast
  define w where "w = (1 - f64_unit) ^ k"
  have wpos: "0 < w" by (simp add: w_def wpow_bounds)
  have tw: "t * w \<le> 1" "w \<le> t" "1 \<le> w * (1 + eps)" using t(2,3) assms(2) by (simp_all add: w_def)
  have epos: "0 < 1 + eps" using assms(3) by linarith
  have "t * w \<le> (1 + eps) * w" using tw(1,3) by (simp add: mult.commute)
  then have up: "t \<le> 1 + eps" using wpos by (simp only: mult_le_cancel_right_pos)
  have "(1 - eps) * (1 + eps) = 1 - eps * eps" by (simp add: algebra_simps)
  moreover have "0 \<le> eps * eps" by simp
  ultimately have "(1 - eps) * (1 + eps) \<le> w * (1 + eps)" using tw(3) by linarith
  then have "1 - eps \<le> w" using epos by (simp only: mult_le_cancel_right_pos)
  with tw(2) have low: "1 - eps \<le> t" by linarith
  have "r - z = z * (t - 1)" by (simp add: t(1) algebra_simps)
  then have "\<bar>r - z\<bar> = \<bar>z\<bar> * \<bar>t - 1\<bar>" by (simp add: abs_mult)
  also have "\<dots> \<le> \<bar>z\<bar> * eps" using up low by (intro mult_left_mono) (simp_all add: abs_le_iff)
  finally show ?thesis by (simp add: mult.commute)
qed

lemma wpow_lower: "1 - real k * f64_unit \<le> (1 - f64_unit) ^ k"
  using Bernoulli_inequality [of "- f64_unit" k] unit_bounds by simp

lemma wpow_28: "1 \<le> (1 - f64_unit) ^ 28 * (1 + 1 / 2 ^ 48)"
proof -
  have "1 \<le> (1 - real 28 * f64_unit) * (1 + 1 / 2 ^ 48)" by (simp add: f64_unit_def)
  also have "\<dots> \<le> (1 - f64_unit) ^ 28 * (1 + 1 / 2 ^ 48)"
    using wpow_lower [of 28] by (intro mult_right_mono) simp_all
  finally show ?thesis .
qed

lemma wpow_10: "1 \<le> (1 - f64_unit) ^ 10 * (1 + 1 / 2 ^ 49)"
proof -
  have "1 \<le> (1 - real 10 * f64_unit) * (1 + 1 / 2 ^ 49)" by (simp add: f64_unit_def)
  also have "\<dots> \<le> (1 - f64_unit) ^ 10 * (1 + 1 / 2 ^ 49)"
    using wpow_lower [of 10] by (intro mult_right_mono) simp_all
  finally show ?thesis .
qed

lemma fp_round_guard:
  assumes "fp_round True z = Some r"
  shows "fp_round False z = Some r" and "rel_err 1 r z"
  using assms rel_err_round [of z r] by (auto simp: fp_round_def split: if_splits)

lemma fp_div_guard:
  assumes "fp_div True p q = Some r"
  shows "fp_div False p q = Some r" and "rel_err 1 r (p / q)" and "q \<noteq> 0"
  using assms fp_round_guard [of "p / q" r] by (auto simp: fp_div_def split: if_splits)

lemma fp_hypot_guard:
  assumes acc: "\<And>p q h. lm_hypot lib p q = Some h \<Longrightarrow> f64_normal (sqrt (p\<^sup>2 + q\<^sup>2)) \<Longrightarrow>
      rel_err 3 h (sqrt (p\<^sup>2 + q\<^sup>2))"
    and "fp_hypot True lib p q = Some h"
  shows "fp_hypot False lib p q = Some h" and "rel_err 3 h (sqrt (p\<^sup>2 + q\<^sup>2))"
  using assms(2) acc [of p q h] by (auto simp: fp_hypot_def split: if_splits)

lemma fp_pow_guard:
  assumes acc: "\<And>z k r. lm_pow lib z k = Some r \<Longrightarrow> f64_normal (z ^ k) \<Longrightarrow> rel_err 3 r (z ^ k)"
    and "fp_pow True lib z k = Some r"
  shows "fp_pow False lib z k = Some r" and "rel_err 3 r (z ^ k)"
  using assms(2) acc [of z k r] by (auto simp: fp_pow_def split: if_splits)

lemma rel_err_square:
  assumes "rel_err k r z"
  shows "rel_err (2 * k) (r\<^sup>2) (z\<^sup>2)"
  using rel_err_mult [OF assms assms] by (simp add: power2_eq_square mult_2)

lemma rel_err_cube:
  assumes "rel_err k r z"
  shows "rel_err (3 * k) (r ^ 3) (z ^ 3)"
proof -
  have "k + (k + k) = 3 * k" by simp
  with rel_err_mult [OF assms rel_err_mult [OF assms assms]] show ?thesis
    by (simp add: power3_eq_cube mult.assoc)
qed

lemma rel_err_modulus:
  assumes "rel_err 1 t s" and "rel_err 3 h (sqrt (t\<^sup>2 + q\<^sup>2))"
  shows "rel_err 4 h (sqrt (s\<^sup>2 + q\<^sup>2))"
proof -
  have "rel_err 2 (t\<^sup>2) (s\<^sup>2)" using rel_err_square [OF assms(1)] by simp
  moreover have "rel_err 2 (q\<^sup>2) (q\<^sup>2)" by (rule rel_err_mono [OF rel_err_refl]) simp
  ultimately have "rel_err 2 (t\<^sup>2 + q\<^sup>2) (s\<^sup>2 + q\<^sup>2)"
    by (rule rel_err_add_nonneg) simp_all
  then have "rel_err 1 (sqrt (t\<^sup>2 + q\<^sup>2)) (sqrt (s\<^sup>2 + q\<^sup>2))"
    using rel_err_sqrt [of 1] by simp
  from rel_err_trans [OF assms(2) this] show ?thesis by simp
qed

lemma rel_err_modulus_sq:
  assumes "rel_err 1 t s" and "rel_err 3 h (sqrt (t\<^sup>2 + q\<^sup>2))" and "rel_err 3 n (h\<^sup>2)"
  shows "rel_err 11 n (s\<^sup>2 + q\<^sup>2)"
proof -
  have "rel_err 8 (h\<^sup>2) ((sqrt (s\<^sup>2 + q\<^sup>2))\<^sup>2)"
    using rel_err_square [OF rel_err_modulus [OF assms(1,2)]] by simp
  then have "rel_err 8 (h\<^sup>2) (s\<^sup>2 + q\<^sup>2)" by simp
  from rel_err_trans [OF assms(3) this] show ?thesis by simp
qed

lemma rel_err_sum_bound:
  assumes "rel_err k q q0" and "rel_err k r r0" and "rel_err 1 v (q + r)"
    and "1 \<le> (1 - f64_unit) ^ (k + 1) * (1 + eps)" and "0 \<le> eps"
  shows "\<bar>v - (q0 + r0)\<bar> \<le> eps * (\<bar>q0\<bar> + \<bar>r0\<bar>)"
proof -
  from assms(3) obtain t where t: "v = (q + r) * t" "(1 - f64_unit) ^ 1 \<le> t" "t * (1 - f64_unit) ^ 1 \<le> 1"
    unfolding rel_err_iff by blast
  have t1: "rel_err 1 t 1" using t(2,3) by (intro rel_errI [of _ _ t]) simp_all
  have "rel_err (k + 1) (q * t) (q0 * 1)" by (rule rel_err_mult [OF assms(1) t1])
  then have bq: "\<bar>q * t - q0\<bar> \<le> eps * \<bar>q0\<bar>"
    using rel_err_bound [OF _ assms(4,5), of "q * t" q0] by simp
  have "rel_err (k + 1) (r * t) (r0 * 1)" by (rule rel_err_mult [OF assms(2) t1])
  then have br: "\<bar>r * t - r0\<bar> \<le> eps * \<bar>r0\<bar>"
    using rel_err_bound [OF _ assms(4,5), of "r * t" r0] by simp
  have "v - (q0 + r0) = (q * t - q0) + (r * t - r0)" by (simp add: t(1) algebra_simps)
  then have "\<bar>v - (q0 + r0)\<bar> \<le> \<bar>q * t - q0\<bar> + \<bar>r * t - r0\<bar>" by simp
  with bq br show ?thesis by (simp add: algebra_simps)
qed

lemma bkg_fp_error:
  assumes hyp: "\<And>p q h. lm_hypot lib p q = Some h \<Longrightarrow> f64_normal (sqrt (p\<^sup>2 + q\<^sup>2)) \<Longrightarrow>
      rel_err 3 h (sqrt (p\<^sup>2 + q\<^sup>2))"
    and pow: "\<And>z k r. lm_pow lib z k = Some r \<Longrightarrow> f64_normal (z ^ k) \<Longrightarrow> rel_err 3 r (z ^ k)"
    and run: "bkg_fp True lib x a b c d e f = Some v"
  shows "bkg_fp False lib x a b c d e f = Some v"
    and "\<bar>v - bkg_closed x a b c d e f\<bar>
          \<le> (\<bar>e\<^sup>2 * ((x - a)\<^sup>2 + b\<^sup>2) / ((x - c)\<^sup>2 + d\<^sup>2)\<bar> + \<bar>f * (x - c)\<bar>) / 2 ^ 48"
proof -
  from run obtain e2 t1 h1 n p t2 h2 dn q t3 r where
    s: "fp_pow True lib e 2 = Some e2" "fp_round True (x - a) = Some t1"
      "fp_hypot True lib t1 b = Some h1" "fp_pow True lib h1 2 = Some n"
      "fp_round True (e2 * n) = Some p" "fp_round True (x - c) = Some t2"
      "fp_hypot True lib t2 d = Some h2" "fp_pow True lib h2 2 = Some dn"
      "fp_div True p dn = Some q" "fp_round True (x - c) = Some t3"
      "fp_round True (f * t3) = Some r" "fp_round True (q + r) = Some v"
    unfolding bkg_fp_def bind_eq_Some_conv by blast
  note g = fp_pow_guard [OF pow s(1)] fp_round_guard [OF s(2)] fp_hypot_guard [OF hyp s(3)]
    fp_pow_guard [OF pow s(4)] fp_round_guard [OF s(5)] fp_round_guard [OF s(6)]
    fp_hypot_guard [OF hyp s(7)] fp_pow_guard [OF pow s(8)] fp_div_guard [OF s(9)]
    fp_round_guard [OF s(10)] fp_round_guard [OF s(11)] fp_round_guard [OF s(12)]
  have same: "t3 = t2" using s(6,10) by simp
  show "bkg_fp False lib x a b c d e f = Some v"
    unfolding bkg_fp_def using g(1,3,5,7,9,11,13,15,17,20,22,24) same by simp
  have n: "rel_err 11 n ((x - a)\<^sup>2 + b\<^sup>2)"
    by (rule rel_err_modulus_sq) (use g in simp_all)
  have dn: "rel_err 11 dn ((x - c)\<^sup>2 + d\<^sup>2)"
    by (rule rel_err_modulus_sq) (use g in simp_all)
  have e2: "rel_err 3 e2 (e\<^sup>2)" using g by simp
  have "rel_err 14 (e2 * n) (e\<^sup>2 * ((x - a)\<^sup>2 + b\<^sup>2))"
    using rel_err_mult [OF e2 n] by simp
  moreover have "rel_err 1 p (e2 * n)" using g by simp
  ultimately have p: "rel_err 15 p (e\<^sup>2 * ((x - a)\<^sup>2 + b\<^sup>2))"
    using rel_err_trans [of 1 p "e2 * n" 14] by simp
  have "rel_err 26 (p / dn) (e\<^sup>2 * ((x - a)\<^sup>2 + b\<^sup>2) / ((x - c)\<^sup>2 + d\<^sup>2))"
    using rel_err_divide [OF p dn] by simp
  moreover have "rel_err 1 q (p / dn)" using g by simp
  ultimately have q: "rel_err 27 q (e\<^sup>2 * ((x - a)\<^sup>2 + b\<^sup>2) / ((x - c)\<^sup>2 + d\<^sup>2))"
    using rel_err_trans [of 1 q "p / dn" 26] by simp
  have t3: "rel_err 1 t3 (x - c)" using g by simp
  have ft: "rel_err 1 (f * t3) (f * (x - c))"
    using rel_err_mult [OF rel_err_refl t3, of f] by simp
  have rf: "rel_err 1 r (f * t3)" using g by simp
  have r: "rel_err 27 r (f * (x - c))"
    by (rule rel_err_mono [OF rel_err_trans [OF rf ft]]) simp
  have v: "rel_err 1 v (q + r)" using g by simp
  have "\<bar>v - (e\<^sup>2 * ((x - a)\<^sup>2 + b\<^sup>2) / ((x - c)\<^sup>2 + d\<^sup>2) + f * (x - c))\<bar>
      \<le> 1 / 2 ^ 48 * (\<bar>e\<^sup>2 * ((x - a)\<^sup>2 + b\<^sup>2) / ((x - c)\<^sup>2 + d\<^sup>2)\<bar> + \<bar>f * (x - c)\<bar>)"
    by (rule rel_err_sum_bound [OF q r v]) (use wpow_28 in simp_all)
  then show "\<bar>v - bkg_closed x a b c d e f\<bar>
          \<le> (\<bar>e\<^sup>2 * ((x - a)\<^sup>2 + b\<^sup>2) / ((x - c)\<^sup>2 + d\<^sup>2)\<bar> + \<bar>f * (x - c)\<bar>) / 2 ^ 48"
    by (simp add: bkg_closed_def)
qed

lemma rel_err_sym:
  assumes "rel_err k r z"
  shows "rel_err k z r"
proof -
  from assms obtain t where t: "r = z * t" "(1 - f64_unit) ^ k \<le> t" "t * (1 - f64_unit) ^ k \<le> 1"
    unfolding rel_err_iff by blast
  have tpos: "0 < t" using t(2) wpow_bounds(1) [of k] by linarith
  have "rel_err k (inverse t) 1"
    using rel_err_inverse [of k t 1] t(2,3) rel_errI [of t 1 t k] by simp
  from rel_err_mult [OF rel_err_refl this, of r] have "rel_err k (r * inverse t) r" by simp
  moreover have "r * inverse t = z" using tpos by (simp add: t(1))
  ultimately show ?thesis by simp
qed

lemma rel_err_zero: "rel_err k r 0 \<Longrightarrow> r = 0"
  by (simp add: rel_err_def)

lemma gauss_exp_fp_guard:
  assumes pow: "\<And>z k r. lm_pow lib z k = Some r \<Longrightarrow> f64_normal (z ^ k) \<Longrightarrow> rel_err 3 r (z ^ k)"
    and "gauss_exp_fp True lib x x0 s = Some ex"
  shows "gauss_exp_fp False lib x x0 s = Some ex"
proof -
  from assms(2) obtain t q q2 arg where
    s: "fp_round True (x - x0) = Some t" "fp_div True t s = Some q"
      "fp_pow True lib q 2 = Some q2" "fp_round True (- (1 / 2) * q2) = Some arg"
      "lm_exp lib arg = Some ex"
    unfolding gauss_exp_fp_def bind_eq_Some_conv by blast
  show ?thesis
    unfolding gauss_exp_fp_def
    using fp_round_guard(1) [OF s(1)] fp_div_guard(1) [OF s(2)] fp_pow_guard(1) [OF pow s(3)]
      fp_round_guard(1) [OF s(4)] s(5)
    by simp
qed

lemma maxwell_fp_error:
  assumes pow: "\<And>z k r. lm_pow lib z k = Some r \<Longrightarrow> f64_normal (z ^ k) \<Longrightarrow> rel_err 3 r (z ^ k)"
    and mx: "maxwell_fp True lib x x0 s mu = Some m"
    and gs: "gaussian_fp True lib x x0 s mu = Some g"
  shows "maxwell_fp False lib x x0 s mu = Some m"
    and "gaussian_fp False lib x x0 s mu = Some g"
    and "\<bar>m - x\<^sup>2 / s ^ 3 * g\<bar> \<le> \<bar>x\<^sup>2 / s ^ 3 * g\<bar> / 2 ^ 49"
proof -
  from mx obtain x2 p1 s3 p2 ex where
    s: "fp_pow True lib x 2 = Some x2" "fp_round True (mu * x2) = Some p1"
      "fp_pow True lib s 3 = Some s3" "fp_div True p1 s3 = Some p2"
      "gauss_exp_fp True lib x x0 s = Some ex" "fp_round True (p2 * ex) = Some m"
    unfolding maxwell_fp_def bind_eq_Some_conv by blast
  from gs s(5) have sg: "fp_round True (mu * ex) = Some g"
    unfolding gaussian_fp_def by simp
  note ex = gauss_exp_fp_guard [OF pow s(5)]
  show "maxwell_fp False lib x x0 s mu = Some m"
    unfolding maxwell_fp_def
    using fp_pow_guard(1) [OF pow s(1)] fp_round_guard(1) [OF s(2)] fp_pow_guard(1) [OF pow s(3)]
      fp_div_guard(1) [OF s(4)] ex fp_round_guard(1) [OF s(6)]
    by simp
  show "gaussian_fp False lib x x0 s mu = Some g"
    unfolding gaussian_fp_def using ex fp_round_guard(1) [OF sg] by simp
  have x2: "rel_err 3 x2 (x\<^sup>2)" by (rule fp_pow_guard(2) [OF pow s(1)])
  have "rel_err 3 (mu * x2) (mu * x\<^sup>2)" using rel_err_mult [OF rel_err_refl x2, of mu] by simp
  from rel_err_trans [OF fp_round_guard(2) [OF s(2)] this]
  have p1: "rel_err 4 p1 (mu * x\<^sup>2)" by simp
  have s3: "rel_err 3 s3 (s ^ 3)" by (rule fp_pow_guard(2) [OF pow s(3)])
  have "rel_err 7 (p1 / s3) (mu * x\<^sup>2 / s ^ 3)" using rel_err_divide [OF p1 s3] by simp
  from rel_err_trans [OF fp_div_guard(2) [OF s(4)] this]
  have p2: "rel_err 8 p2 (mu * x\<^sup>2 / s ^ 3)" by simp
  have "rel_err 1 (mu * ex) g" by (rule rel_err_sym [OF fp_round_guard(2) [OF sg]])
  from rel_err_mult [OF rel_err_refl this, of "x\<^sup>2 / s ^ 3"]
  have "rel_err 1 (x\<^sup>2 / s ^ 3 * (mu * ex)) (x\<^sup>2 / s ^ 3 * g)" by simp
  then have ge: "rel_err 1 (mu * x\<^sup>2 / s ^ 3 * ex) (x\<^sup>2 / s ^ 3 * g)" by (simp add: mult_ac)
  have "rel_err 8 (p2 * ex) (mu * x\<^sup>2 / s ^ 3 * ex)"
    using rel_err_mult [OF p2 rel_err_refl, of ex] by simp
  from rel_err_trans [OF fp_round_guard(2) [OF s(6)] this]
  have "rel_err 9 m (mu * x\<^sup>2 / s ^ 3 * ex)" by simp
  from rel_err_trans [OF this ge] have "rel_err 10 m (x\<^sup>2 / s ^ 3 * g)" by simp
  from rel_err_bound [OF this wpow_10] show "\<bar>m - x\<^sup>2 / s ^ 3 * g\<bar> \<le> \<bar>x\<^sup>2 / s ^ 3 * g\<bar> / 2 ^ 49"
    by simp
qed

lemma f64_round_zero [simp]: "f64_round 0 = Some 0"
  by (simp add: f64_round_def)

lemma fp_round_False [simp]: "fp_round False z = f64_round z"
  by (simp add: fp_round_def)

lemma fp_pow_False [simp]: "fp_pow False lib z k = lm_pow lib z k"
  by (simp add: fp_pow_def)

lemma fp_hypot_False [simp]: "fp_hypot False lib p q = lm_hypot lib p q"
  by (simp add: fp_hypot_def)

lemma f64_normal_zero [simp]: "f64_normal 0"
  by (simp add: f64_normal_def)

lemma maxwell_fp_at_zero:
  assumes pow: "\<And>z k r. lm_pow lib z k = Some r \<Longrightarrow> f64_normal (z ^ k) \<Longrightarrow> rel_err 3 r (z ^ k)"
    and mx: "maxwell_fp False lib 0 x0 s mu = Some m"
  shows "m = 0"
proof -
  from mx obtain x2 p1 s3 p2 ex where
    s: "lm_pow lib 0 2 = Some x2" "f64_round (mu * x2) = Some p1"
      "lm_pow lib s 3 = Some s3" "fp_div False p1 s3 = Some p2"
      "gauss_exp_fp False lib 0 x0 s = Some ex" "f64_round (p2 * ex) = Some m"
    unfolding maxwell_fp_def bind_eq_Some_conv by auto
  have "rel_err 3 x2 (0 ^ 2)" by (rule pow [OF s(1)]) simp
  then have "x2 = 0" by (simp add: rel_err_def)
  with s(2) have "p1 = 0" by simp
  with s(4) have "p2 = 0" by (simp add: fp_div_def split: if_splits)
  with s(6) show ?thesis by simp
qed

lemma bkg_fp_zero_scale:
  assumes pow: "\<And>z k r. lm_pow lib z k = Some r \<Longrightarrow> f64_normal (z ^ k) \<Longrightarrow> rel_err 3 r (z ^ k)"
    and run: "bkg_fp False lib x a b c d 0 0 = Some v"
  shows "v = 0"
proof -
  from run obtain e2 t1 h1 n p t2 h2 dn q t3 r where
    s: "lm_pow lib 0 2 = Some e2" "f64_round (e2 * n) = Some p" "fp_div False p dn = Some q"
      "f64_round (0 * t3) = Some r" "f64_round (q + r) = Some v"
    unfolding bkg_fp_def bind_eq_Some_conv by auto
  have "rel_err 3 e2 (0 ^ 2)" by (rule pow [OF s(1)]) simp
  then have "e2 = 0" by (simp add: rel_err_def)
  with s(2) have "p = 0" by simp
  with s(3) have "q = 0" by (simp add: fp_div_def split: if_splits)
  moreover from s(4) have "r = 0" by simp
  ultimately show ?thesis using s(5) by simp
qed


lemma libm_cr_hypot:
  assumes "lm_hypot libm_cr p q = Some h" and "f64_normal (sqrt (p\<^sup>2 + q\<^sup>2))"
  shows "rel_err 3 h (sqrt (p\<^sup>2 + q\<^sup>2))"
proof -
  have "f64_round (sqrt (p\<^sup>2 + q\<^sup>2)) = Some h" using assms(1) by (simp add: libm_cr_def)
  from rel_err_round [OF this assms(2)] show ?thesis by (rule rel_err_mono) simp
qed

lemma libm_cr_pow:
  assumes "lm_pow libm_cr z k = Some r" and "f64_normal (z ^ k)"
  shows "rel_err 3 r (z ^ k)"
proof -
  have "f64_round (z ^ k) = Some r" using assms(1) by (simp add: libm_cr_def)
  from rel_err_round [OF this assms(2)] show ?thesis by (rule rel_err_mono) simp
qed

lemma f64_round_eval:
  assumes "z \<noteq> 0" and "- 1022 \<le> e" and "e \<le> 1023"
    and "2 powi e \<le> \<bar>z\<bar>" and "\<bar>z\<bar> < 2 powi (e + 1)"
    and "\<bar>z\<bar> < 2 ^ 1024 - 2 ^ 970"
    and "\<bar>z / 2 powi (e - 52) - real_of_int m\<bar> < 1 / 2"
  shows "f64_round z = Some (real_of_int m * 2 powi (e - 52))"
proof -
  have ex: "f64_exponent z = e" by (rule f64_exponent_unique [OF assms(2-5)])
  have "np_rint (z / 2 powi (e - 52)) = m" by (rule np_rint_unique [OF assms(7)])
  with ex assms(1,6) show ?thesis by (simp add: f64_round_def Let_def)
qed

lemma r_1: "f64_round 1 = Some 1"
  using f64_round_eval [where z = 1 and e = 0 and m = "2 ^ 52"] by simp

lemma r_7: "f64_round 7 = Some 7"
  using f64_round_eval [where z = 7 and e = 2 and m = "7 * 2 ^ 50"] by simp

lemma r_243: "f64_round (1 / 243) = Some (2372266470384459 / 576460752303423488)"
  using f64_round_eval [where z = "1 / 243" and e = "- 8" and m = 4744532940768918] by simp

lemma sqrt2_round: "f64_round (sqrt 2) = Some (6369051672525773 / 4503599627370496)"
proof -
  have lo: "(6369051672525773 - 1 / 2) / 2 ^ 52 < sqrt 2"
    by (rule real_less_rsqrt) (simp add: power2_eq_square)
  have hi: "sqrt 2 < (6369051672525773 + 1 / 2) / 2 ^ 52"
    by (rule real_less_lsqrt) (simp_all add: power2_eq_square)
  have "1 \<le> sqrt 2" by simp
  moreover have "sqrt 2 < 2" by (rule real_less_lsqrt) simp_all
  moreover have "\<bar>sqrt 2 / 2 powi (0 - 52) - real_of_int 6369051672525773\<bar> < 1 / 2"
  proof -
    have "sqrt 2 / 2 powi (0 - 52) = sqrt 2 * 4503599627370496" by simp
    moreover have "12738103345051545 < sqrt 2 * 9007199254740992" using lo by (simp add: field_simps)
    moreover have "sqrt 2 * 9007199254740992 < 12738103345051547" using hi by (simp add: field_simps)
    ultimately show ?thesis by (simp only: abs_less_iff of_int_numeral) linarith
  qed
  ultimately show ?thesis
    using f64_round_eval [where z = "sqrt 2" and e = 0 and m = 6369051672525773] by simp
qed

lemma r_3: "f64_round (3) = Some (3)"
  using f64_round_eval [where z = "3" and e = 1 and m = 6755399441055744] by simp

lemma r_4: "f64_round (4) = Some (4)"
  using f64_round_eval [where z = "4" and e = 2 and m = 4503599627370496] by simp

lemma r_8: "f64_round (8) = Some (8)"
  using f64_round_eval [where z = "8" and e = 3 and m = 4503599627370496] by simp

lemma r_11: "f64_round (11) = Some (11)"
  using f64_round_eval [where z = "11" and e = 3 and m = 6192449487634432] by simp

lemma r_729: "f64_round (729) = Some (729)"
  using f64_round_eval [where z = "729" and e = 9 and m = 6412351813189632] by simp

lemma r_m2: "f64_round (- 2) = Some (- 2)"
  using f64_round_eval [where z = "- 2" and e = 1 and m = "- 4503599627370496"] by simp

lemma r_sqrt2_sq:
  "f64_round ((6369051672525773 / 4503599627370496)\<^sup>2) = Some (4503599627370497 / 2251799813685248)"
proof -
  have sq: "(6369051672525773 / 4503599627370496 :: real)\<^sup>2
      = 40564819207303346393761349247529 / 20282409603651670423947251286016"
    by (simp add: power2_eq_square)
  have "f64_round (40564819207303346393761349247529 / 20282409603651670423947251286016)
      = Some (4503599627370497 / 2251799813685248)"
    using f64_round_eval [where z = "40564819207303346393761349247529 / 20282409603651670423947251286016"
        and e = 1 and m = 4503599627370497]
    by simp
  then show ?thesis by (simp only: sq)
qed

lemma r_inv_dn: "f64_round (2251799813685248 / 4503599627370497) = Some (4503599627370495 / 9007199254740992)"
  using f64_round_eval [where z = "2251799813685248 / 4503599627370497" and e = "- 2" and m = 9007199254740990] by simp

lemma r_q: "f64_round (4503599627370495 / 9007199254740992) = Some (4503599627370495 / 9007199254740992)"
  using f64_round_eval [where z = "4503599627370495 / 9007199254740992" and e = "- 2" and m = 9007199254740990] by simp

lemma r_tiny: "f64_round (1 / 1152921504606846976) = Some (1 / 1152921504606846976)"
  using f64_round_eval [where z = "1 / 1152921504606846976" and e = "- 60" and m = 4503599627370496] by simp

lemma r_absorb: "f64_round (8070450532247928833 / 1152921504606846976) = Some (7)"
  using f64_round_eval [where z = "8070450532247928833 / 1152921504606846976" and e = 2 and m = 7881299347898368] by simp

lemma r_inv_729: "f64_round (1 / 729) = Some (6326043921025223 / 4611686018427387904)"
  using f64_round_eval [where z = "1 / 729" and e = "- 10" and m = 6326043921025223] by simp

lemma r_q729_times_3: "f64_round (18978131763075669 / 4611686018427387904) = Some (4744532940768917 / 1152921504606846976)"
  using f64_round_eval [where z = "18978131763075669 / 4611686018427387904" and e = "- 8" and m = 4744532940768917] by simp

lemma r_m243: "f64_round (2372266470384459 / 576460752303423488) = Some (2372266470384459 / 576460752303423488)"
  using f64_round_eval [where z = "2372266470384459 / 576460752303423488" and e = "- 8" and m = 4744532940768918] by simp

lemma libm_cr_simps:
  "lm_hypot libm_cr p q = f64_round (sqrt (p\<^sup>2 + q\<^sup>2))"
  "lm_pow libm_cr z k = f64_round (z ^ k)"
  "lm_exp libm_cr v = f64_round (exp v)"
  by (simp_all add: libm_cr_def)

lemmas rounded = r_1 r_3 r_4 r_7 r_8 r_11 r_729 r_243 r_m2 sqrt2_round r_sqrt2_sq r_inv_dn r_q r_tiny
  r_absorb r_inv_729 r_q729_times_3 r_m243

lemmas fp_eval = bkg_fp_def gauss_exp_fp_def gaussian_fp_def maxwell_fp_def signal_gauss_fp_def
  signal_maxwell_fp_def fp_div_def fp_round_def fp_pow_def fp_hypot_def f64_normal_def libm_cr_simps

lemma bkg_cr_zero_scale: "bkg_fp False libm_cr 1 0 0 0 1 0 0 = Some 0"
  by (simp add: fp_eval rounded)

lemma bkg_cr_unit_scale:
  "bkg_fp False libm_cr 1 0 0 0 1 1 0 = Some (4503599627370495 / 9007199254740992)"
  by (simp add: fp_eval rounded)

lemma bkg_cr_seven: "bkg_fp guard libm_cr 2 1 0 1 0 2 3 = Some 7"
  by (simp add: fp_eval rounded)

lemma bkg_cr_one: "bkg_fp guard libm_cr 2 1 0 1 0 1 0 = Some 1"
  by (simp add: fp_eval rounded)

lemma bkg_cr_zero: "bkg_fp False libm_cr 2 1 0 1 0 0 0 = Some 0"
  by (simp add: fp_eval rounded)

lemma gaussian_cr_tiny: "gaussian_fp False libm_cr 2 2 1 (1 / 1152921504606846976) = Some (1 / 1152921504606846976)"
  by (simp add: fp_eval rounded)

lemma gaussian_cr_one: "gaussian_fp guard libm_cr 2 2 1 1 = Some 1"
  by (simp add: fp_eval rounded)

lemma maxwell_cr_four: "maxwell_fp guard libm_cr 2 2 1 1 = Some 4"
  by (simp add: fp_eval rounded)

lemma maxwell_cr_origin: "maxwell_fp False libm_cr 0 0 1 1 = Some 0"
  by (simp add: fp_eval rounded)

lemma maxwell_cr_243: "maxwell_fp False libm_cr 1 1 9 3 = Some (2372266470384459 / 576460752303423488)"
  by (simp add: fp_eval rounded)

lemma gaussian_cr_three: "gaussian_fp False libm_cr 1 1 9 3 = Some 3"
  by (simp add: fp_eval rounded)

lemma signal_gauss_cr_absorb:
  "signal_gauss_fp False libm_cr 2 1 0 1 0 2 3 2 1 (1 / 2 ^ 60) = Some 7"
  by (simp add: signal_gauss_fp_def bkg_cr_seven gaussian_cr_tiny rounded)

lemma signal_cr_eight:
  "signal_gauss_fp False libm_cr 2 1 0 1 0 2 3 2 1 1 = Some 8"
  "signal_maxwell_fp False libm_cr 2 1 0 1 0 2 3 2 1 1 = Some 11"
  by (simp_all add: signal_gauss_fp_def signal_maxwell_fp_def bkg_cr_seven gaussian_cr_one
      maxwell_cr_four rounded)




lemma normal_sqrt2: "f64_normal (sqrt 2)"
proof -
  have "1 \<le> sqrt 2" by simp
  moreover have "(2::real) powi (- 1022) \<le> 1" by simp
  ultimately have "2 powi (- 1022) \<le> sqrt 2" by linarith
  then show ?thesis by (simp add: f64_normal_def del: power_int_numeral_neg_numeral)
qed

lemma normal_sqrt2_sq: "f64_normal ((6369051672525773 / 4503599627370496)\<^sup>2)"
proof -
  have "(6369051672525773 / 4503599627370496 :: real)\<^sup>2
      = 40564819207303346393761349247529 / 20282409603651670423947251286016"
    by (simp add: power2_eq_square)
  then show ?thesis by (simp add: f64_normal_def)
qed

lemma normal_numerals:
  "f64_normal 1"
  "f64_normal (2251799813685248 / 4503599627370497)"
  "f64_normal (4503599627370495 / 9007199254740992)"
  by (simp_all add: f64_normal_def)

lemma bkg_cr_unit_scale_guard:
  "bkg_fp guard libm_cr 1 0 0 0 1 1 0 = Some (4503599627370495 / 9007199254740992)"
  by (simp add: bkg_fp_def fp_div_def fp_round_def fp_pow_def fp_hypot_def libm_cr_simps rounded
      normal_sqrt2 normal_sqrt2_sq normal_numerals)

lemma maxwell_cr_243_guard:
  "maxwell_fp guard libm_cr 1 1 9 3 = Some (2372266470384459 / 576460752303423488)"
  by (simp add: fp_eval rounded)

lemma gaussian_cr_three_guard: "gaussian_fp guard libm_cr 1 1 9 3 = Some 3"
  by (simp add: fp_eval rounded)

lemma scaled_gaussian_cr_243:
  "scaled_gaussian_fp False libm_cr 1 1 9 3 = Some (4744532940768917 / 1152921504606846976)"
  by (simp add: scaled_gaussian_fp_def gaussian_cr_three_guard fp_div_def libm_cr_simps rounded)









section \<open>Properties of the model functions\<close>

lemma cmod_shift_sq: "(cmod (of_real u + \<i> * of_real v))\<^sup>2 = u\<^sup>2 + v\<^sup>2"
  by (simp add: cmod_power2)

lemma bkg_unfold:
  "bkg x a b c d e f =
     (if (x - c)\<^sup>2 + d\<^sup>2 = 0 then None
      else Some (e\<^sup>2 * ((x - a)\<^sup>2 + b\<^sup>2) / ((x - c)\<^sup>2 + d\<^sup>2) + f * (x - c)))"
  unfolding bkg_def np_div_def cmod_shift_sq by simp

text \<open>
  C2, as amended. The fitting library's \<open>abs\<close> and \<open>**\<close> are accurate to one unit in the
  last place (the two hypotheses). Then, with \<open>e = 1\<close> and \<open>f = 0\<close>, whenever the
  evaluation of \<open>bkg\<close> neither overflows nor underflows nor divides by zero, its result
  is the ratio \<open>((x - a)\<^sup>2 + b\<^sup>2) / ((x - c)\<^sup>2 + d\<^sup>2)\<close> up to a relative error of \<open>2\<^sup>-\<^sup>4\<^sup>8\<close>; and
  with the last two arguments 0 and 0, whenever \<open>bkg\<close> has a finite result, that result
  is 0.
\<close>

theorem bkg_unit_scale_close_to_ratio:
  assumes hypot_accurate: "\<And>p q h. lm_hypot lib p q = Some h \<Longrightarrow> f64_normal (sqrt (p\<^sup>2 + q\<^sup>2)) \<Longrightarrow>
      rel_err 3 h (sqrt (p\<^sup>2 + q\<^sup>2))"
    and pow_accurate: "\<And>z k r. lm_pow lib z k = Some r \<Longrightarrow> f64_normal (z ^ k) \<Longrightarrow>
      rel_err 3 r (z ^ k)"
  shows "(bkg_fp True lib x a b c d 1 0 = Some v \<longrightarrow>
            bkg_fp False lib x a b c d 1 0 = Some v
          \<and> \<bar>v - ((x - a)\<^sup>2 + b\<^sup>2) / ((x - c)\<^sup>2 + d\<^sup>2)\<bar>
              \<le> ((x - a)\<^sup>2 + b\<^sup>2) / ((x - c)\<^sup>2 + d\<^sup>2) / 2 ^ 48)
       \<and> (bkg_fp False lib x a b c d 0 0 = Some w \<longrightarrow> w = 0)"
proof (intro conjI impI)
  assume run: "bkg_fp True lib x a b c d 1 0 = Some v"
  show "bkg_fp False lib x a b c d 1 0 = Some v"
    by (rule bkg_fp_error(1) [OF hypot_accurate pow_accurate run])
  have "0 \<le> ((x - a)\<^sup>2 + b\<^sup>2) / ((x - c)\<^sup>2 + d\<^sup>2)" by simp
  with bkg_fp_error(2) [OF hypot_accurate pow_accurate run]
  show "\<bar>v - ((x - a)\<^sup>2 + b\<^sup>2) / ((x - c)\<^sup>2 + d\<^sup>2)\<bar>
      \<le> ((x - a)\<^sup>2 + b\<^sup>2) / ((x - c)\<^sup>2 + d\<^sup>2) / 2 ^ 48"
    by (simp add: bkg_closed_def)
next
  assume run: "bkg_fp False lib x a b c d 0 0 = Some w"
  show "w = 0"
  proof (rule bkg_fp_zero_scale [where lib = lib and v = w])
    show "bkg_fp False lib x a b c d 0 0 = Some w" by (rule run)
  next
    fix z :: real and k r
    assume "lm_pow lib z k = Some r" and "f64_normal (z ^ k)"
    then show "rel_err 3 r (z ^ k)" by (rule pow_accurate)
  qed
qed

text \<open>
  At \<open>x = 1\<close>, \<open>a = b = c = 0\<close>, \<open>d = 1\<close>, with the correctly rounded library:
  \<open>bkg(1, 0, 0, 0, 1, 1, 0)\<close> is \<open>0.4999999999999999\<close>, within the bound of the ratio 1/2,
  and \<open>bkg(1, 0, 0, 0, 1, 0, 0)\<close> is 0.
\<close>

theorem bkg_unit_scale_close_to_ratio_witness:
  "bkg_fp True libm_cr 1 0 0 0 1 1 0 = Some (4503599627370495 / 9007199254740992)
   \<and> bkg_fp False libm_cr 1 0 0 0 1 1 0 = Some (4503599627370495 / 9007199254740992)
   \<and> \<bar>4503599627370495 / 9007199254740992 - ((1 - 0)\<^sup>2 + 0\<^sup>2) / ((1 - 0)\<^sup>2 + 1\<^sup>2)\<bar>
        \<le> ((1 - 0)\<^sup>2 + 0\<^sup>2) / ((1 - 0)\<^sup>2 + 1\<^sup>2) / (2 ^ 48 :: real)
   \<and> bkg_fp False libm_cr 1 0 0 0 1 0 0 = Some 0"
proof -
  have "(bkg_fp True libm_cr 1 0 0 0 1 1 0 = Some (4503599627370495 / 9007199254740992) \<longrightarrow>
            bkg_fp False libm_cr 1 0 0 0 1 1 0 = Some (4503599627370495 / 9007199254740992)
          \<and> \<bar>4503599627370495 / 9007199254740992 - ((1 - 0)\<^sup>2 + 0\<^sup>2) / ((1 - 0)\<^sup>2 + 1\<^sup>2)\<bar>
              \<le> ((1 - 0)\<^sup>2 + 0\<^sup>2) / ((1 - 0)\<^sup>2 + 1\<^sup>2) / (2 ^ 48 :: real))
       \<and> (bkg_fp False libm_cr 1 0 0 0 1 0 0 = Some 0 \<longrightarrow> (0::real) = 0)"
  proof (rule bkg_unit_scale_close_to_ratio [where lib = libm_cr])
    fix p q h
    assume "lm_hypot libm_cr p q = Some h" and "f64_normal (sqrt (p\<^sup>2 + q\<^sup>2))"
    then show "rel_err 3 h (sqrt (p\<^sup>2 + q\<^sup>2))" by (rule libm_cr_hypot)
  next
    fix z :: real and k r
    assume "lm_pow libm_cr z k = Some r" and "f64_normal (z ^ k)"
    then show "rel_err 3 r (z ^ k)" by (rule libm_cr_pow)
  qed
  then show ?thesis using bkg_cr_unit_scale_guard [of True] bkg_cr_zero_scale by blast
qed

text \<open>
  C2 as stated, with the last two arguments 0 and 0, fails: the factor \<open>e\<^sup>2 = 0\<close> removes
  the ratio. At \<open>x = 1\<close>, \<open>a = b = c = 0\<close>, \<open>d = 1\<close> the code returns 0 and the ratio is 1/2.
\<close>

theorem bkg_zero_scale_counterexample:
  "bkg_fp False libm_cr 1 0 0 0 1 0 0 = Some 0
   \<and> ((1 - 0)\<^sup>2 + 0\<^sup>2) / ((1 - 0)\<^sup>2 + 1\<^sup>2) = (1 / 2 :: real)
   \<and> bkg_fp False libm_cr 1 0 0 0 1 0 0 \<noteq> Some (((1 - 0)\<^sup>2 + 0\<^sup>2) / ((1 - 0)\<^sup>2 + 1\<^sup>2))"
  by (simp add: bkg_cr_zero_scale)

text \<open>
  C4, as amended. The implemented \<open>bkg\<close> and the closed form in real arithmetic agree up
  to rounding, not exactly: when the library's \<open>abs\<close> and \<open>**\<close> are accurate to one unit
  in the last place and the evaluation of \<open>bkg\<close> neither overflows nor underflows nor
  divides by zero, its result differs from
  \<open>e\<^sup>2 \<cdot> ((x - a)\<^sup>2 + b\<^sup>2) / ((x - c)\<^sup>2 + d\<^sup>2) + f \<cdot> (x - c)\<close> by at most \<open>2\<^sup>-\<^sup>4\<^sup>8\<close> times the sum of the
  magnitudes of the two terms.
\<close>

theorem bkg_close_to_closed_form:
  assumes hypot_accurate: "\<And>p q h. lm_hypot lib p q = Some h \<Longrightarrow> f64_normal (sqrt (p\<^sup>2 + q\<^sup>2)) \<Longrightarrow>
      rel_err 3 h (sqrt (p\<^sup>2 + q\<^sup>2))"
    and pow_accurate: "\<And>z k r. lm_pow lib z k = Some r \<Longrightarrow> f64_normal (z ^ k) \<Longrightarrow>
      rel_err 3 r (z ^ k)"
    and no_underflow: "bkg_fp True lib x a b c d e f = Some v"
  shows "bkg_fp False lib x a b c d e f = Some v
       \<and> \<bar>v - bkg_closed x a b c d e f\<bar>
          \<le> (\<bar>e\<^sup>2 * ((x - a)\<^sup>2 + b\<^sup>2) / ((x - c)\<^sup>2 + d\<^sup>2)\<bar> + \<bar>f * (x - c)\<bar>) / 2 ^ 48"
  using bkg_fp_error [OF hypot_accurate pow_accurate no_underflow] by blast

text \<open>
  At \<open>x = 1\<close>, \<open>a = b = c = 0\<close>, \<open>d = e = 1\<close>, \<open>f = 0\<close>, with the correctly rounded library, no
  operation underflows, the code returns \<open>0.4999999999999999 = 1/2 - 2\<^sup>-\<^sup>5\<^sup>3\<close> and the closed
  form is 1/2.
\<close>

theorem bkg_close_to_closed_form_witness:
  "bkg_fp True libm_cr 1 0 0 0 1 1 0 = Some (4503599627370495 / 9007199254740992)
   \<and> bkg_fp False libm_cr 1 0 0 0 1 1 0 = Some (4503599627370495 / 9007199254740992)
   \<and> bkg_closed 1 0 0 0 1 1 0 = 1 / 2
   \<and> \<bar>4503599627370495 / 9007199254740992 - bkg_closed 1 0 0 0 1 1 0\<bar>
        \<le> (\<bar>1\<^sup>2 * ((1 - 0)\<^sup>2 + 0\<^sup>2) / ((1 - 0)\<^sup>2 + 1\<^sup>2)\<bar> + \<bar>0 * (1 - 0)\<bar>) / 2 ^ 48"
proof -
  have run: "bkg_fp True libm_cr 1 0 0 0 1 1 0 = Some (4503599627370495 / 9007199254740992)"
    by (rule bkg_cr_unit_scale_guard)
  have "bkg_fp False libm_cr 1 0 0 0 1 1 0 = Some (4503599627370495 / 9007199254740992)
       \<and> \<bar>4503599627370495 / 9007199254740992 - bkg_closed 1 0 0 0 1 1 0\<bar>
          \<le> (\<bar>1\<^sup>2 * ((1 - 0)\<^sup>2 + 0\<^sup>2) / ((1 - 0)\<^sup>2 + 1\<^sup>2)\<bar> + \<bar>0 * (1 - 0)\<bar>) / 2 ^ 48"
  proof (rule bkg_close_to_closed_form [where lib = libm_cr])
    show "bkg_fp True libm_cr 1 0 0 0 1 1 0 = Some (4503599627370495 / 9007199254740992)"
      by (rule run)
  next
    fix p q h
    assume "lm_hypot libm_cr p q = Some h" and "f64_normal (sqrt (p\<^sup>2 + q\<^sup>2))"
    then show "rel_err 3 h (sqrt (p\<^sup>2 + q\<^sup>2))" by (rule libm_cr_hypot)
  next
    fix z :: real and k r
    assume "lm_pow libm_cr z k = Some r" and "f64_normal (z ^ k)"
    then show "rel_err 3 r (z ^ k)" by (rule libm_cr_pow)
  qed
  moreover have "bkg_closed 1 0 0 0 1 1 0 = 1 / 2" by (simp add: bkg_closed_def)
  ultimately show ?thesis using run by blast
qed

text \<open>
  C4 as stated, an equality, fails at the same point: \<open>abs(1+1j)\<close> is the double
  \<open>1.4142135623730951\<close>, its square rounds to \<open>2.0000000000000004\<close>, and the quotient is
  \<open>0.4999999999999999\<close>, not 1/2.
\<close>

theorem bkg_closed_form_counterexample:
  "bkg_fp False libm_cr 1 0 0 0 1 1 0 = Some (4503599627370495 / 9007199254740992)
   \<and> bkg_closed 1 0 0 0 1 1 0 = 1 / 2
   \<and> bkg_fp False libm_cr 1 0 0 0 1 1 0 \<noteq> Some (bkg_closed 1 0 0 0 1 1 0)"
  by (simp add: bkg_cr_unit_scale_guard bkg_closed_def)




text \<open>
  C9. The background does not change when \<open>b\<close>, \<open>d\<close> or \<open>e\<close> changes sign: each of them
  enters through a square only. (Negating \<open>d\<close> keeps the points where it is undefined.)
\<close>

theorem bkg_sign_invariant:
  "bkg x a (- b) c d e f = bkg x a b c d e f
   \<and> bkg x a b c (- d) e f = bkg x a b c d e f
   \<and> bkg x a b c d (- e) f = bkg x a b c d e f"
  by (simp add: bkg_unfold)

text \<open>
  C10, as amended. When the library's \<open>**\<close> is accurate to one unit in the last place
  and the evaluations of \<open>maxwell\<close> and \<open>gaussian\<close> neither overflow nor underflow nor
  divide by zero, \<open>maxwell(x, x0, s, mu)\<close> is \<open>(x\<^sup>2 / s\<^sup>3) \<cdot> gaussian(x, x0, s, mu)\<close> up to a
  relative error of \<open>2\<^sup>-\<^sup>4\<^sup>9\<close>; and whenever \<open>maxwell(0, x0, s, mu)\<close> has a finite result, that
  result is 0.
\<close>

theorem maxwell_close_to_scaled_gaussian:
  assumes pow_accurate: "\<And>z k r. lm_pow lib z k = Some r \<Longrightarrow> f64_normal (z ^ k) \<Longrightarrow>
      rel_err 3 r (z ^ k)"
  shows "(maxwell_fp True lib x x0 s mu = Some m \<and> gaussian_fp True lib x x0 s mu = Some g \<longrightarrow>
            maxwell_fp False lib x x0 s mu = Some m \<and> gaussian_fp False lib x x0 s mu = Some g
          \<and> \<bar>m - x\<^sup>2 / s ^ 3 * g\<bar> \<le> \<bar>x\<^sup>2 / s ^ 3 * g\<bar> / 2 ^ 49)
       \<and> (maxwell_fp False lib 0 y0 t nu = Some m0 \<longrightarrow> m0 = 0)"
proof (intro conjI impI)
  assume run: "maxwell_fp True lib x x0 s mu = Some m \<and> gaussian_fp True lib x x0 s mu = Some g"
  then have mx: "maxwell_fp True lib x x0 s mu = Some m"
    and gs: "gaussian_fp True lib x x0 s mu = Some g" by simp_all
  note err = maxwell_fp_error [OF pow_accurate mx gs]
  show "maxwell_fp False lib x x0 s mu = Some m" by (rule err(1))
  show "gaussian_fp False lib x x0 s mu = Some g" by (rule err(2))
  show "\<bar>m - x\<^sup>2 / s ^ 3 * g\<bar> \<le> \<bar>x\<^sup>2 / s ^ 3 * g\<bar> / 2 ^ 49" by (rule err(3))
next
  assume run: "maxwell_fp False lib 0 y0 t nu = Some m0"
  show "m0 = 0"
  proof (rule maxwell_fp_at_zero [where lib = lib and m = m0])
    show "maxwell_fp False lib 0 y0 t nu = Some m0" by (rule run)
  next
    fix z :: real and k r
    assume "lm_pow lib z k = Some r" and "f64_normal (z ^ k)"
    then show "rel_err 3 r (z ^ k)" by (rule pow_accurate)
  qed
qed

text \<open>
  At \<open>x = x0 = 1\<close>, \<open>s = 9\<close>, \<open>mu = 3\<close>, with the correctly rounded library: \<open>maxwell\<close> is
  the double next to 1/243, \<open>gaussian\<close> is 3, and the two are within the bound; and
  \<open>maxwell(0, 0, 1, 1)\<close> is 0.
\<close>

theorem maxwell_close_to_scaled_gaussian_witness:
  "maxwell_fp True libm_cr 1 1 9 3 = Some (2372266470384459 / 576460752303423488)
   \<and> gaussian_fp True libm_cr 1 1 9 3 = Some 3
   \<and> maxwell_fp False libm_cr 1 1 9 3 = Some (2372266470384459 / 576460752303423488)
   \<and> gaussian_fp False libm_cr 1 1 9 3 = Some 3
   \<and> \<bar>2372266470384459 / 576460752303423488 - 1\<^sup>2 / 9 ^ 3 * 3\<bar> \<le> \<bar>1\<^sup>2 / 9 ^ 3 * 3\<bar> / (2 ^ 49 :: real)
   \<and> maxwell_fp False libm_cr 0 0 1 1 = Some 0"
proof -
  have "(maxwell_fp True libm_cr 1 1 9 3 = Some (2372266470384459 / 576460752303423488)
          \<and> gaussian_fp True libm_cr 1 1 9 3 = Some 3 \<longrightarrow>
            maxwell_fp False libm_cr 1 1 9 3 = Some (2372266470384459 / 576460752303423488)
          \<and> gaussian_fp False libm_cr 1 1 9 3 = Some 3
          \<and> \<bar>2372266470384459 / 576460752303423488 - 1\<^sup>2 / 9 ^ 3 * 3\<bar>
              \<le> \<bar>1\<^sup>2 / 9 ^ 3 * 3\<bar> / (2 ^ 49 :: real))
       \<and> (maxwell_fp False libm_cr 0 0 1 1 = Some 0 \<longrightarrow> (0::real) = 0)"
  proof (rule maxwell_close_to_scaled_gaussian [where lib = libm_cr])
    fix z :: real and k r
    assume "lm_pow libm_cr z k = Some r" and "f64_normal (z ^ k)"
    then show "rel_err 3 r (z ^ k)" by (rule libm_cr_pow)
  qed
  then show ?thesis
    using maxwell_cr_243_guard [of True] gaussian_cr_three_guard [of True] maxwell_cr_origin
    by blast
qed

text \<open>
  C10 as stated, an equality for all \<open>s \<noteq> 0\<close>, fails at that point:
  \<open>maxwell(1, 1, 9, 3) = 0.00411522633744856\<close>, and
  \<open>1**2 / 9**3 * gaussian(1, 1, 9, 3) = 0.004115226337448559\<close>; neither is 1/243.
\<close>

theorem maxwell_scaled_gaussian_counterexample:
  "maxwell_fp False libm_cr 1 1 9 3 = Some (2372266470384459 / 576460752303423488)
   \<and> gaussian_fp False libm_cr 1 1 9 3 = Some 3
   \<and> scaled_gaussian_fp False libm_cr 1 1 9 3 = Some (4744532940768917 / 1152921504606846976)
   \<and> (2372266470384459 / 576460752303423488 :: real) \<noteq> 4744532940768917 / 1152921504606846976
   \<and> (2372266470384459 / 576460752303423488 :: real) \<noteq> 1\<^sup>2 / 9 ^ 3 * 3"
  using maxwell_cr_243_guard [of False] gaussian_cr_three_guard [of False] scaled_gaussian_cr_243
  by simp

section \<open>Properties of the fits\<close>

lemma np_reciprocal_nonzero: "0 \<notin> set w \<Longrightarrow> np_reciprocal w = Some (map (\<lambda>wi. 1 / wi) w)"
  by (simp add: np_reciprocal_def)

lemma getitem_Some: "m k = Some v \<Longrightarrow> getitem m k = Inr v"
  by (simp add: getitem_def)

text \<open>
  C5. For a reference power \<open>ref \<ge> 0\<close> and uncertainties without a zero, \<open>fit_bkg\<close> is
  the library's fit of \<open>bkg\<close> to \<open>y\<close> over \<open>x\<close> with these parameters: \<open>a\<close> and \<open>c\<close> start at
  \<open>center\<close> with bounds \<open>0.999 \<cdot> center\<close> and \<open>1.01 \<cdot> center\<close>, \<open>b\<close> starts at \<open>2 \<cdot> 10\<^sup>4\<close>,
  \<open>d\<close> at \<open>2.2 \<cdot> 10\<^sup>4\<close>, \<open>e\<close> at \<open>10\<^sup>-\<^sup>2 \<cdot> sqrt ref\<close>, \<open>f\<close> at \<open>10\<^sup>-\<^sup>1\<^sup>2 \<cdot> ref\<close>, all six free to vary,
  and with the weights \<open>1 / w\<close>, elementwise.
\<close>

theorem fit_bkg_configuration:
  assumes "0 \<le> ref" and "0 \<notin> set w"
  shows "fit_bkg lmfit x y w center ref =
     lmfit \<lparr>fc_model = Model6 bkg, fc_data = y, fc_x = x,
            fc_params =
              [(''a'', \<lparr>p_value = center, p_vary = True,
                        p_min = Some (0.999 * center), p_max = Some (1.01 * center)\<rparr>),
               (''b'', \<lparr>p_value = 2 * 10 ^ 4, p_vary = True, p_min = None, p_max = None\<rparr>),
               (''c'', \<lparr>p_value = center, p_vary = True,
                        p_min = Some (0.999 * center), p_max = Some (1.01 * center)\<rparr>),
               (''d'', \<lparr>p_value = 2.2 * 10 ^ 4, p_vary = True, p_min = None, p_max = None\<rparr>),
               (''e'', \<lparr>p_value = sqrt ref / 10 ^ 2, p_vary = True, p_min = None, p_max = None\<rparr>),
               (''f'', \<lparr>p_value = ref / 10 ^ 12, p_vary = True, p_min = None, p_max = None\<rparr>)],
            fc_weights = map (\<lambda>wi. 1 / wi) w\<rparr>"
  using assms
  by (simp add: fit_bkg_def np_sqrt_def np_reciprocal_nonzero number_param_def mult.commute)

theorem fit_bkg_configuration_witness:
  "(0::real) \<le> 4 \<and> (0::real) \<notin> set [2] \<and>
   fit_bkg sample_fitter [1] [3] [2] 1000 4 =
     sample_fitter \<lparr>fc_model = Model6 bkg, fc_data = [3], fc_x = [1],
            fc_params =
              [(''a'', \<lparr>p_value = 1000, p_vary = True, p_min = Some 999, p_max = Some 1010\<rparr>),
               (''b'', \<lparr>p_value = 20000, p_vary = True, p_min = None, p_max = None\<rparr>),
               (''c'', \<lparr>p_value = 1000, p_vary = True, p_min = Some 999, p_max = Some 1010\<rparr>),
               (''d'', \<lparr>p_value = 22000, p_vary = True, p_min = None, p_max = None\<rparr>),
               (''e'', \<lparr>p_value = 2 / 100, p_vary = True, p_min = None, p_max = None\<rparr>),
               (''f'', \<lparr>p_value = 4 / 10 ^ 12, p_vary = True, p_min = None, p_max = None\<rparr>)],
            fc_weights = [1 / 2]\<rparr>"
proof -
  have s4: "sqrt 4 = 2" using real_sqrt_abs [of 2] by simp
  show ?thesis
    using fit_bkg_configuration
      [where ref = 4 and w = "[2]" and lmfit = sample_fitter and x = "[1]" and y = "[3]"
        and center = 1000]
    by (simp add: s4)
qed

text \<open>
  C6. When \<open>init_params\<close> has the six background keys and no uncertainty is zero,
  \<open>fit_sig\<close> is the library's fit of the chosen combined model to \<open>y\<close> over \<open>x\<close> with the
  weights \<open>1 / w\<close> and with \<open>mu\<close> starting at \<open>mu_init\<close>, bounded below by 0 and varying
  exactly when \<open>mu_vary\<close> holds, \<open>x0\<close> fixed at \<open>x_0\<close> and \<open>s\<close> fixed at
  \<open>16 \<cdot> 651 = 10416\<close>; the background parameters start at the values of \<open>init_params\<close>
  and vary exactly when \<open>par_vary\<close> holds.
\<close>

theorem fit_sig_configuration:
  assumes "init_params ''a'' = Some va" and "init_params ''b'' = Some vb"
    and "init_params ''c'' = Some vc" and "init_params ''d'' = Some vd"
    and "init_params ''e'' = Some ve" and "init_params ''f'' = Some vf"
    and "0 \<notin> set w"
  shows "fit_sig lmfit x y w x_0 init_params signal mu_init mu_vary par_vary =
     lmfit \<lparr>fc_model = Model9 signal, fc_data = y, fc_x = x,
            fc_params =
              [(''a'', \<lparr>p_value = va, p_vary = par_vary, p_min = None, p_max = None\<rparr>),
               (''b'', \<lparr>p_value = vb, p_vary = par_vary, p_min = None, p_max = None\<rparr>),
               (''c'', \<lparr>p_value = vc, p_vary = par_vary, p_min = None, p_max = None\<rparr>),
               (''d'', \<lparr>p_value = vd, p_vary = par_vary, p_min = None, p_max = None\<rparr>),
               (''e'', \<lparr>p_value = ve, p_vary = par_vary, p_min = None, p_max = None\<rparr>),
               (''f'', \<lparr>p_value = vf, p_vary = par_vary, p_min = None, p_max = None\<rparr>),
               (''mu'', \<lparr>p_value = mu_init, p_vary = mu_vary, p_min = Some 0, p_max = None\<rparr>),
               (''x0'', \<lparr>p_value = x_0, p_vary = False, p_min = None, p_max = None\<rparr>),
               (''s'', \<lparr>p_value = 10416, p_vary = False, p_min = None, p_max = None\<rparr>)],
            fc_weights = map (\<lambda>wi. 1 / wi) w\<rparr>"
  using assms
  by (simp add: fit_sig_def bind_err_def getitem_Some np_reciprocal_nonzero value_vary_param_def)

theorem fit_sig_configuration_witness:
  "(0::real) \<notin> set [2] \<and>
   fit_sig sample_fitter [1] [3] [2] 5
       [''a'' \<mapsto> 11, ''b'' \<mapsto> 12, ''c'' \<mapsto> 13, ''d'' \<mapsto> 14, ''e'' \<mapsto> 15, ''f'' \<mapsto> 16]
       signal_maxwell 1 True False =
     sample_fitter \<lparr>fc_model = Model9 signal_maxwell, fc_data = [3], fc_x = [1],
            fc_params =
              [(''a'', \<lparr>p_value = 11, p_vary = False, p_min = None, p_max = None\<rparr>),
               (''b'', \<lparr>p_value = 12, p_vary = False, p_min = None, p_max = None\<rparr>),
               (''c'', \<lparr>p_value = 13, p_vary = False, p_min = None, p_max = None\<rparr>),
               (''d'', \<lparr>p_value = 14, p_vary = False, p_min = None, p_max = None\<rparr>),
               (''e'', \<lparr>p_value = 15, p_vary = False, p_min = None, p_max = None\<rparr>),
               (''f'', \<lparr>p_value = 16, p_vary = False, p_min = None, p_max = None\<rparr>),
               (''mu'', \<lparr>p_value = 1, p_vary = True, p_min = Some 0, p_max = None\<rparr>),
               (''x0'', \<lparr>p_value = 5, p_vary = False, p_min = None, p_max = None\<rparr>),
               (''s'', \<lparr>p_value = 10416, p_vary = False, p_min = None, p_max = None\<rparr>)],
            fc_weights = [1 / 2]\<rparr>"
  using fit_sig_configuration
    [where init_params = "[''a'' \<mapsto> 11, ''b'' \<mapsto> 12, ''c'' \<mapsto> 13, ''d'' \<mapsto> 14, ''e'' \<mapsto> 15, ''f'' \<mapsto> 16]"
      and va = 11 and vb = 12 and vc = 13 and vd = 14 and ve = 15 and vf = 16 and w = "[2]"
      and lmfit = sample_fitter and x = "[1]" and y = "[3]" and ?x_0.0 = 5
      and signal = signal_maxwell and mu_init = 1 and mu_vary = True and par_vary = False]
  by simp

lemma fit_sig_returns:
  assumes "fit_sig lmfit x y w x_0 init_params signal mu_init mu_vary par_vary = Inr result"
  shows "\<exists>va vb vc vd ve vf.
           init_params ''a'' = Some va \<and> init_params ''b'' = Some vb \<and> init_params ''c'' = Some vc
         \<and> init_params ''d'' = Some vd \<and> init_params ''e'' = Some ve \<and> init_params ''f'' = Some vf
         \<and> lmfit \<lparr>fc_model = Model9 signal, fc_data = y, fc_x = x,
              fc_params =
                [(''a'', value_vary_param va par_vary), (''b'', value_vary_param vb par_vary),
                 (''c'', value_vary_param vc par_vary), (''d'', value_vary_param vd par_vary),
                 (''e'', value_vary_param ve par_vary), (''f'', value_vary_param vf par_vary),
                 (''mu'', \<lparr>p_value = mu_init, p_vary = mu_vary, p_min = Some 0, p_max = None\<rparr>),
                 (''x0'', value_vary_param x_0 False),
                 (''s'', value_vary_param (16 * 651) False)],
              fc_weights = map (\<lambda>wi. 1 / wi) w\<rparr> = Inr result"
  using assms
  by (auto simp: fit_sig_def bind_err_def getitem_def np_reciprocal_def
      split: option.splits if_splits)

text \<open>
  C1. The fitting library leaves alone a parameter that is configured with \<open>vary=False\<close>
  and without bounds: that is the library's contract, and the hypothesis \<open>fixed\<close> on the
  fitter. Then whenever \<open>fit_sig\<close> with \<open>par_vary=False\<close> returns a result, the values of
  \<open>a\<close>, \<open>b\<close>, \<open>c\<close>, \<open>d\<close>, \<open>e\<close>, \<open>f\<close> in it are the values supplied in \<open>init_params\<close>.
\<close>

theorem fit_sig_background_fixed:
  assumes fixed: "\<And>fc r n p. lmfit fc = Inr r \<Longrightarrow> map_of (fc_params fc) n = Some p \<Longrightarrow>
      \<not> p_vary p \<Longrightarrow> p_min p = None \<Longrightarrow> p_max p = None \<Longrightarrow> best_values r n = Some (p_value p)"
    and returned: "fit_sig lmfit x y w x_0 init_params signal mu_init mu_vary False = Inr result"
  shows "best_values result ''a'' = init_params ''a'' \<and> best_values result ''b'' = init_params ''b''
       \<and> best_values result ''c'' = init_params ''c'' \<and> best_values result ''d'' = init_params ''d''
       \<and> best_values result ''e'' = init_params ''e'' \<and> best_values result ''f'' = init_params ''f''"
proof -
  from fit_sig_returns [OF returned] obtain va vb vc vd ve vf where
    keys: "init_params ''a'' = Some va" "init_params ''b'' = Some vb" "init_params ''c'' = Some vc"
      "init_params ''d'' = Some vd" "init_params ''e'' = Some ve" "init_params ''f'' = Some vf"
    and run: "lmfit \<lparr>fc_model = Model9 signal, fc_data = y, fc_x = x,
              fc_params =
                [(''a'', value_vary_param va False), (''b'', value_vary_param vb False),
                 (''c'', value_vary_param vc False), (''d'', value_vary_param vd False),
                 (''e'', value_vary_param ve False), (''f'', value_vary_param vf False),
                 (''mu'', \<lparr>p_value = mu_init, p_vary = mu_vary, p_min = Some 0, p_max = None\<rparr>),
                 (''x0'', value_vary_param x_0 False),
                 (''s'', value_vary_param (16 * 651) False)],
              fc_weights = map (\<lambda>wi. 1 / wi) w\<rparr> = Inr result"
    by blast
  have kept: "best_values result n = Some v"
    if "map_of [(''a'', value_vary_param va False), (''b'', value_vary_param vb False),
                 (''c'', value_vary_param vc False), (''d'', value_vary_param vd False),
                 (''e'', value_vary_param ve False), (''f'', value_vary_param vf False),
                 (''mu'', \<lparr>p_value = mu_init, p_vary = mu_vary, p_min = Some 0, p_max = None\<rparr>),
                 (''x0'', value_vary_param x_0 False),
                 (''s'', value_vary_param (16 * 651) False)] n = Some (value_vary_param v False)"
    for n v
    using fixed [OF run, of n "value_vary_param v False"] that
    by (simp add: value_vary_param_def)
  show ?thesis
    using keys kept [of "''a''" va] kept [of "''b''" vb] kept [of "''c''" vc]
      kept [of "''d''" vd] kept [of "''e''" ve] kept [of "''f''" vf]
    by simp
qed

lemma sample_fitter_fixed:
  assumes "sample_fitter fc = Inr r" and "map_of (fc_params fc) n = Some p" and "\<not> p_vary p"
    and "p_min p = None" and "p_max p = None"
  shows "best_values r n = Some (p_value p)"
proof -
  have "r = \<lparr>best_values =
               map_of (map (\<lambda>(n, p). (n, if p_vary p then 7 else p_value p)) (fc_params fc)),
             best_fit = fc_data fc, residual = map (\<lambda>v. 0) (fc_data fc)\<rparr>"
    using assms(1) by (simp add: sample_fitter_def)
  then show ?thesis
    using assms(2,3) by (simp add: map_of_map)
qed

text \<open>
  A run with the sample fitter, which moves every free parameter to 7: \<open>mu\<close> ends at 7,
  the six background parameters keep the values of \<open>init_params\<close>.
\<close>

theorem fit_sig_background_fixed_witness:
  "\<exists>result. fit_sig sample_fitter [1] [3] [2] 5
       [''a'' \<mapsto> 11, ''b'' \<mapsto> 12, ''c'' \<mapsto> 13, ''d'' \<mapsto> 14, ''e'' \<mapsto> 15, ''f'' \<mapsto> 16]
       signal_gauss 1 True False = Inr result
     \<and> best_values result ''a'' = Some 11 \<and> best_values result ''b'' = Some 12
     \<and> best_values result ''c'' = Some 13 \<and> best_values result ''d'' = Some 14
     \<and> best_values result ''e'' = Some 15 \<and> best_values result ''f'' = Some 16
     \<and> best_values result ''mu'' = Some 7"
proof -
  obtain result where
    run: "fit_sig sample_fitter [1] [3] [2] 5
       [''a'' \<mapsto> 11, ''b'' \<mapsto> 12, ''c'' \<mapsto> 13, ''d'' \<mapsto> 14, ''e'' \<mapsto> 15, ''f'' \<mapsto> 16]
       signal_gauss 1 True False = Inr result"
    and mu: "best_values result ''mu'' = Some 7"
    by (simp add: fit_sig_def bind_err_def getitem_def np_reciprocal_def sample_fitter_def
        value_vary_param_def)
  define supplied :: "string \<rightharpoonup> real" where
    "supplied = [''a'' \<mapsto> 11, ''b'' \<mapsto> 12, ''c'' \<mapsto> 13, ''d'' \<mapsto> 14, ''e'' \<mapsto> 15, ''f'' \<mapsto> 16]"
  have kept: "best_values result ''a'' = supplied ''a'' \<and> best_values result ''b'' = supplied ''b''
       \<and> best_values result ''c'' = supplied ''c'' \<and> best_values result ''d'' = supplied ''d''
       \<and> best_values result ''e'' = supplied ''e'' \<and> best_values result ''f'' = supplied ''f''"
  proof (rule fit_sig_background_fixed
      [where lmfit = sample_fitter and init_params = supplied and result = result
        and x = "[1]" and y = "[3]" and w = "[2]" and ?x_0.0 = 5 and signal = signal_gauss
        and mu_init = 1 and mu_vary = True])
    show "fit_sig sample_fitter [1] [3] [2] 5 supplied signal_gauss 1 True False = Inr result"
      unfolding supplied_def by (rule run)
  next
    fix fc r n p
    assume "sample_fitter fc = Inr r" and "map_of (fc_params fc) n = Some p" and "\<not> p_vary p"
      and "p_min p = None" and "p_max p = None"
    then show "best_values r n = Some (p_value p)" by (rule sample_fitter_fixed)
  qed
  have given:
    "supplied ''a'' = Some 11" "supplied ''b'' = Some 12" "supplied ''c'' = Some 13"
    "supplied ''d'' = Some 14" "supplied ''e'' = Some 15" "supplied ''f'' = Some 16"
    by (simp_all add: supplied_def)
  from kept have
    "best_values result ''a'' = Some 11 \<and> best_values result ''b'' = Some 12
     \<and> best_values result ''c'' = Some 13 \<and> best_values result ''d'' = Some 14
     \<and> best_values result ''e'' = Some 15 \<and> best_values result ''f'' = Some 16"
    by (simp only: given)
  with run mu show ?thesis by blast
qed

section \<open>Properties of the plots\<close>

lemma plot_fit_unfold:
  assumes "x \<noteq> []" and "residual fr \<noteq> []"
  shows "plot_fit x y w fr =
    (let rangeMax = py_int (Max (set (residual fr))) + 1 in
       if rangeMax < - rangeMax then Inl ValueError
       else if 2 ^ 63 \<le> rangeMax then Inl TypeError
       else
         let fit_res = norm_fit (residual fr);
             grid = np_linspace (- real_of_int rangeMax) (real_of_int rangeMax) 100
         in Inr ([Plot Ax x y,
                  Plot Ax x (best_fit fr),
                  Set_xlim Ax (Min (set x)) (Max (set x)),
                  Plot_residuals Ax1,
                  Hist Ax2 (residual fr) 15 True (- rangeMax) rangeMax,
                  Plot_norm_pdf Ax2 grid (fst fit_res) (snd fit_res),
                  Axvline Ax2 (fst fit_res),
                  Text Ax2 (9 / 10) (9 / 10) (np_round3 (fst fit_res)) (np_round3 (snd fit_res)),
                  Scatter Ax3 x (map2 (*) (residual fr) w),
                  Plot Ax3 x w,
                  Plot Ax3 x (map uminus w),
                  Set_xlim Ax3 (Min (set x)) (Max (set x)),
                  Show],
                 fr))"
  using assms by (simp add: plot_fit_def bind_err_def py_min_def py_max_def np_max_def)

lemma well_formed_nonempty: "well_formed x y w fr \<Longrightarrow> x \<noteq> [] \<and> residual fr \<noteq> []"
  by (auto simp: well_formed_def)

text \<open>Whenever \<open>plot_fit\<close> returns, it returns the fit result it was given.\<close>

lemma plot_fit_echo: "plot_fit x y w fr = Inr (cs, fr') \<Longrightarrow> fr' = fr"
  by (auto simp: plot_fit_def bind_err_def Let_def split: sum.splits if_splits)

text \<open>
  It returns when the largest residual is above \<open>-2\<close> and below \<open>2\<^sup>6\<^sup>3 - 1\<close>. It raises
  when the largest residual is \<open>-2\<close> or less: then \<open>rangeMax\<close> is negative and the
  histogram's range is inverted. It raises when the largest residual is \<open>2\<^sup>6\<^sup>3 - 1\<close> or
  more: then \<open>rangeMax\<close> does not fit a 64-bit integer.
\<close>

lemma py_int_upper: "v < 2 ^ 63 - 1 \<Longrightarrow> py_int v + 1 < 2 ^ 63"
proof -
  assume less: "v < 2 ^ 63 - 1"
  have "real_of_int (py_int v) \<le> v \<or> py_int v \<le> 0"
    by (auto simp: py_int_def)
  moreover have "real_of_int (py_int v) \<le> v \<Longrightarrow> py_int v < 2 ^ 63 - 1"
  proof -
    assume "real_of_int (py_int v) \<le> v"
    with less have "real_of_int (py_int v) < real_of_int (2 ^ 63 - 1)" by simp
    then show ?thesis by (simp only: of_int_less_iff)
  qed
  ultimately show ?thesis by auto
qed

lemma plot_fit_returns:
  assumes "well_formed x y w fr" and "- 2 < Max (set (residual fr))"
    and "Max (set (residual fr)) < 2 ^ 63 - 1"
  shows "plot_fit x y w fr = Inr (calls_of (plot_fit x y w fr), fr)"
proof -
  have "- 2 < py_int (Max (set (residual fr)))"
    using assms(2) by (auto simp: py_int_def)
  then have "\<not> py_int (Max (set (residual fr))) + 1 < - (py_int (Max (set (residual fr))) + 1)"
    by linarith
  moreover have "\<not> 2 ^ 63 \<le> py_int (Max (set (residual fr))) + 1"
    using py_int_upper [OF assms(3)] by linarith
  ultimately show ?thesis
    using well_formed_nonempty [OF assms(1)]
    by (simp add: plot_fit_unfold calls_of_def Let_def)
qed

lemma plot_fit_raises_type:
  assumes "well_formed x y w fr" and "2 ^ 63 - 1 \<le> Max (set (residual fr))"
  shows "plot_fit x y w fr = Inl TypeError"
proof -
  define top where "top = Max (set (residual fr))"
  have big: "real_of_int (2 ^ 63 - 1) \<le> top" using assms(2) by (simp add: top_def)
  then have "0 \<le> top" by simp
  then have "py_int top = \<lfloor>top\<rfloor>" by (simp add: py_int_def)
  moreover have "2 ^ 63 - 1 \<le> \<lfloor>top\<rfloor>" using big by (simp only: le_floor_iff)
  moreover have "(0::int) \<le> 2 ^ 63 - 1" by simp
  ultimately have "2 ^ 63 \<le> py_int top + 1" "\<not> py_int top + 1 < - (py_int top + 1)"
    by linarith+
  then show ?thesis
    using well_formed_nonempty [OF assms(1)]
    by (simp add: plot_fit_unfold Let_def top_def)
qed

lemma plot_fit_raises:
  assumes "well_formed x y w fr" and "Max (set (residual fr)) \<le> - 2"
  shows "plot_fit x y w fr = Inl ValueError"
proof -
  have "py_int (Max (set (residual fr))) \<le> - 2"
    using assms(2) by (simp add: py_int_def ceiling_le_iff)
  then have "py_int (Max (set (residual fr))) + 1 < - (py_int (Max (set (residual fr))) + 1)"
    by linarith
  then show ?thesis
    using well_formed_nonempty [OF assms(1)]
    by (simp add: plot_fit_unfold Let_def)
qed

text \<open>
  C3, as amended. For well-formed arguments whose largest residual \<open>top\<close> is not negative
  and below \<open>2\<^sup>6\<^sup>3 - 1\<close>, \<open>plot_fit\<close> returns, and it draws one histogram: of the residuals,
  with 15 bins, density normalized, over the range from \<open>-rangeMax\<close> to \<open>rangeMax\<close> where
  \<open>rangeMax = \<lfloor>top\<rfloor> + 1\<close>. The range contains \<open>top\<close>, strictly below its upper end, and
  \<open>rangeMax\<close> is \<open>\<lceil>top\<rceil>\<close> when \<open>top\<close> is not an integer.
\<close>

theorem plot_fit_histogram_range:
  assumes "well_formed x y w fr" and "0 \<le> Max (set (residual fr))"
    and "Max (set (residual fr)) < 2 ^ 63 - 1"
  shows "let top = Max (set (residual fr)); rangeMax = \<lfloor>top\<rfloor> + 1 in
      plot_fit x y w fr = Inr (calls_of (plot_fit x y w fr), fr)
    \<and> filter is_hist (calls_of (plot_fit x y w fr))
        = [Hist Ax2 (residual fr) 15 True (- rangeMax) rangeMax]
    \<and> - real_of_int rangeMax \<le> top \<and> top < real_of_int rangeMax
    \<and> (top \<notin> \<int> \<longrightarrow> rangeMax = \<lceil>top\<rceil>)"
proof -
  define top where "top = Max (set (residual fr))"
  have nonneg: "0 \<le> top" using assms(2) by (simp add: top_def)
  have trunc: "py_int top = \<lfloor>top\<rfloor>" using nonneg by (simp add: py_int_def)
  have "0 \<le> \<lfloor>top\<rfloor>" using nonneg by simp
  then have pos: "\<not> \<lfloor>top\<rfloor> + 1 < - (\<lfloor>top\<rfloor> + 1)" by linarith
  have "py_int top + 1 < 2 ^ 63" using py_int_upper [of top] assms(3) by (simp add: top_def)
  then have fits: "\<not> 2 ^ 63 \<le> \<lfloor>top\<rfloor> + 1" using trunc by linarith
  have run: "plot_fit x y w fr = Inr (calls_of (plot_fit x y w fr), fr)"
    and hist: "filter is_hist (calls_of (plot_fit x y w fr))
        = [Hist Ax2 (residual fr) 15 True (- (\<lfloor>top\<rfloor> + 1)) (\<lfloor>top\<rfloor> + 1)]"
    using pos fits trunc well_formed_nonempty [OF assms(1)]
    by (simp_all add: plot_fit_unfold top_def [symmetric] calls_of_def Let_def)
  have lower: "- real_of_int (\<lfloor>top\<rfloor> + 1) \<le> top" using nonneg by linarith
  have upper: "top < real_of_int (\<lfloor>top\<rfloor> + 1)" by linarith
  have ceil: "\<lfloor>top\<rfloor> + 1 = \<lceil>top\<rceil>" if "top \<notin> \<int>"
    using that by (simp add: ceiling_altdef Ints_def) (metis Ints_of_int that)
  show ?thesis
    using run hist lower upper ceil by (simp add: Let_def top_def [symmetric])
qed

theorem plot_fit_histogram_range_witness:
  "well_formed [1, 2] [1, 1] [1, 1]
      \<lparr>best_values = Map.empty, best_fit = [3 / 2, 5 / 2], residual = [1 / 2, 3 / 2]\<rparr>
   \<and> (0::real) \<le> Max (set [1 / 2, 3 / 2])
   \<and> Max (set [1 / 2, 3 / 2]) < (2 ^ 63 - 1 :: real)
   \<and> (3 / 2 :: real) \<notin> \<int>
   \<and> filter is_hist (calls_of (plot_fit [1, 2] [1, 1] [1, 1]
         \<lparr>best_values = Map.empty, best_fit = [3 / 2, 5 / 2], residual = [1 / 2, 3 / 2]\<rparr>))
       = [Hist Ax2 [1 / 2, 3 / 2] 15 True (- 2) 2]
   \<and> \<lceil>3 / 2 :: real\<rceil> = 2"
proof -
  have frac: "(3 / 2 :: real) \<notin> \<int>"
  proof
    assume "(3 / 2 :: real) \<in> \<int>"
    then obtain k :: int where "3 / 2 = real_of_int k" by (auto elim: Ints_cases)
    then have "real_of_int (2 * k) = real_of_int 3" by simp
    then have "2 * k = 3" by (simp only: of_int_eq_iff)
    then show False by presburger
  qed
  have wf: "well_formed [1, 2] [1, 1] [1, 1]
      \<lparr>best_values = Map.empty, best_fit = [3 / 2, 5 / 2], residual = [1 / 2, 3 / 2]\<rparr>"
    by (simp add: well_formed_def)
  have fl: "\<lfloor>3 / 2 :: real\<rfloor> = 1" by linarith
  have ce: "\<lceil>3 / 2 :: real\<rceil> = 2" by linarith
  show ?thesis
    using frac wf plot_fit_histogram_range [OF wf]
    unfolding Let_def by (simp add: fl ce)
qed

text \<open>
  C3 as stated fails where the largest residual is an integer: for the residuals 1/2 and 2
  the histogram runs from \<open>-3\<close> to 3, and \<open>\<lceil>2\<rceil> = 2\<close>.
\<close>

theorem plot_fit_histogram_range_counterexample:
  "filter is_hist (calls_of (plot_fit [1, 2] [1, 1] [1, 1]
       \<lparr>best_values = Map.empty, best_fit = [3 / 2, 3], residual = [1 / 2, 2]\<rparr>))
     = [Hist Ax2 [1 / 2, 2] 15 True (- 3) 3]
   \<and> \<lceil>Max (set [1 / 2, 2 :: real])\<rceil> \<noteq> 3"
  by (simp add: plot_fit_unfold calls_of_def py_int_def Let_def)

text \<open>
  C8. For every well-formed input \<open>plot_fit\<close> should return the fit result it was given.
  On this well-formed input it raises instead: the only residual is \<open>-3\<close>, so \<open>rangeMax\<close>
  is \<open>int(-3.0) + 1 = -2\<close> and the histogram is asked for the range from 2 to \<open>-2\<close>.
\<close>

theorem plot_fit_negative_residuals:
  "well_formed [1] [5] [1] \<lparr>best_values = Map.empty, best_fit = [2], residual = [- 3]\<rparr>
   \<and> plot_fit [1] [5] [1] \<lparr>best_values = Map.empty, best_fit = [2], residual = [- 3]\<rparr>
       = Inl ValueError"
  by (simp add: plot_fit_unfold py_int_def Let_def well_formed_def)

end
